theory Spec2Isabelle
  imports Complex_Main "HOL-Library.AList" "HOL-Library.Multiset"
begin

unbundle bit_operations_syntax

section \<open>Go strings\<close>

text \<open>
  A Go string is a sequence of bytes, modelled as a \<open>char list\<close>. The functions of
  package \<open>strings\<close> that the converter calls are written out here. Every separator
  the converter passes to \<open>Split\<close>, \<open>SplitN\<close> and \<open>ReplaceAll\<close> is a single byte,
  so these take a \<open>char\<close>.
\<close>

abbreviation NL :: char where "NL \<equiv> CHR 0x0A"
abbreviation TAB :: char where "TAB \<equiv> CHR 0x09"
abbreviation DQ :: char where "DQ \<equiv> CHR 0x22"
abbreviation BSL :: char where "BSL \<equiv> CHR 0x5C"
abbreviation BQ :: char where "BQ \<equiv> CHR 0x60"

definition HasPrefix :: "string \<Rightarrow> string \<Rightarrow> bool" where
  "HasPrefix s p = (take (length p) s = p)"

definition HasSuffix :: "string \<Rightarrow> string \<Rightarrow> bool" where
  "HasSuffix s p = (length p \<le> length s \<and> drop (length s - length p) s = p)"

definition TrimPrefix :: "string \<Rightarrow> string \<Rightarrow> string" where
  "TrimPrefix s p = (if HasPrefix s p then drop (length p) s else s)"

text \<open>
  \<open>strings.TrimSpace\<close> removes the leading and the trailing white space
  \<open>unicode.IsSpace\<close> knows: the six ASCII characters and the code points U+0085,
  U+00A0, U+1680, U+2000 to U+200A, U+2028, U+2029, U+202F, U+205F and U+3000, which a
  string holds in their UTF-8 encoding. A byte that does not start such an encoding
  (also one of an invalid encoding, decoded as U+FFFD) is not white space. No encoding
  is a prefix or a suffix of another, so at most one is found at either end.
\<close>

definition asciiSpace :: "string list" where
  "asciiSpace = [[TAB], [NL], [CHR 0x0B], [CHR 0x0C], [CHR 0x0D], [CHR '' '']]"

definition unicodeSpace :: "string list" where
  "unicodeSpace =
     [[CHR 0xC2, CHR 0x85], [CHR 0xC2, CHR 0xA0], [CHR 0xE1, CHR 0x9A, CHR 0x80],
      [CHR 0xE2, CHR 0x80, CHR 0x80], [CHR 0xE2, CHR 0x80, CHR 0x81],
      [CHR 0xE2, CHR 0x80, CHR 0x82], [CHR 0xE2, CHR 0x80, CHR 0x83],
      [CHR 0xE2, CHR 0x80, CHR 0x84], [CHR 0xE2, CHR 0x80, CHR 0x85],
      [CHR 0xE2, CHR 0x80, CHR 0x86], [CHR 0xE2, CHR 0x80, CHR 0x87],
      [CHR 0xE2, CHR 0x80, CHR 0x88], [CHR 0xE2, CHR 0x80, CHR 0x89],
      [CHR 0xE2, CHR 0x80, CHR 0x8A], [CHR 0xE2, CHR 0x80, CHR 0xA8],
      [CHR 0xE2, CHR 0x80, CHR 0xA9], [CHR 0xE2, CHR 0x80, CHR 0xAF],
      [CHR 0xE2, CHR 0x81, CHR 0x9F], [CHR 0xE3, CHR 0x80, CHR 0x80]]"

text \<open>The length of the white space at the head of a string, 0 when there is none.\<close>

definition space_at_head :: "string list \<Rightarrow> string \<Rightarrow> nat" where
  "space_at_head spaces s =
     (case find (\<lambda>p. HasPrefix s p) spaces of Some p \<Rightarrow> length p | None \<Rightarrow> 0)"

function trim_head :: "string list \<Rightarrow> string \<Rightarrow> string" where
  "trim_head spaces s =
     (if s = [] \<or> space_at_head spaces s = 0 then s
      else trim_head spaces (drop (space_at_head spaces s) s))"
  by pat_completeness auto
termination
  by (relation "measure (\<lambda>(spaces, s). length s)") auto

declare trim_head.simps [simp del]

definition TrimSpace :: "string \<Rightarrow> string" where
  "TrimSpace s =
     rev (trim_head (map rev (asciiSpace @ unicodeSpace))
            (rev (trim_head (asciiSpace @ unicodeSpace) s)))"

definition TrimLeft :: "string \<Rightarrow> string \<Rightarrow> string" where
  "TrimLeft s cutset = dropWhile (\<lambda>c. c \<in> set cutset) s"

definition TrimRight :: "string \<Rightarrow> string \<Rightarrow> string" where
  "TrimRight s cutset = rev (dropWhile (\<lambda>c. c \<in> set cutset) (rev s))"

definition Trim :: "string \<Rightarrow> string \<Rightarrow> string" where
  "Trim s cutset = TrimRight (TrimLeft s cutset) cutset"

fun Split :: "string \<Rightarrow> char \<Rightarrow> string list" where
  "Split [] sep = [[]]"
| "Split (c # cs) sep =
     (if c = sep then [] # Split cs sep
      else (case Split cs sep of [] \<Rightarrow> [[c]] | p # ps \<Rightarrow> (c # p) # ps))"

fun SplitN :: "string \<Rightarrow> char \<Rightarrow> nat \<Rightarrow> string list" where
  "SplitN s sep 0 = []"
| "SplitN s sep (Suc 0) = [s]"
| "SplitN [] sep (Suc (Suc n)) = [[]]"
| "SplitN (c # cs) sep (Suc (Suc n)) =
     (if c = sep then [] # SplitN cs sep (Suc n)
      else (case SplitN cs sep (Suc (Suc n)) of [] \<Rightarrow> [[c]] | p # ps \<Rightarrow> (c # p) # ps))"

fun Join :: "string list \<Rightarrow> string \<Rightarrow> string" where
  "Join [] sep = []"
| "Join [s] sep = s"
| "Join (s # t # ss) sep = s @ sep @ Join (t # ss) sep"

fun Contains :: "string \<Rightarrow> string \<Rightarrow> bool" where
  "Contains [] sub = (sub = [])"
| "Contains (c # cs) sub = (HasPrefix (c # cs) sub \<or> Contains cs sub)"

fun Index :: "string \<Rightarrow> string \<Rightarrow> int" where
  "Index [] sub = (if sub = [] then 0 else - 1)"
| "Index (c # cs) sub =
     (if HasPrefix (c # cs) sub then 0
      else (let k = Index cs sub in if k < 0 then - 1 else k + 1))"

definition Repeat :: "string \<Rightarrow> nat \<Rightarrow> string" where
  "Repeat s n = concat (replicate n s)"

definition ReplaceAll :: "string \<Rightarrow> char \<Rightarrow> string \<Rightarrow> string" where
  "ReplaceAll s old new = concat (map (\<lambda>c. if c = old then new else [c]) s)"

subsection \<open>Numbers as text\<close>

function digits :: "int \<Rightarrow> int \<Rightarrow> string" where
  "digits base n =
     (if base < 2 \<or> n < base then [''0123456789abcdef'' ! nat n]
      else digits base (n div base) @ [''0123456789abcdef'' ! nat (n mod base)])"
  by pat_completeness auto
termination
  by (relation "measure (\<lambda>(base, n). nat n)") (auto simp: int_div_less_self)

declare digits.simps [simp del]

text \<open>\<open>%d\<close> and \<open>%x\<close> of an integer.\<close>

definition fmt_d :: "int \<Rightarrow> string" where
  "fmt_d i = (if i < 0 then CHR ''-'' # digits 10 (- i) else digits 10 i)"

definition fmt_x :: "int \<Rightarrow> string" where
  "fmt_x i = (if i < 0 then CHR ''-'' # digits 16 (- i) else digits 16 i)"

definition pad0 :: "nat \<Rightarrow> string \<Rightarrow> string" where
  "pad0 w s = replicate (w - length s) CHR ''0'' @ s"

definition isDigit :: "char \<Rightarrow> bool" where
  "isDigit c = (c \<in> set ''0123456789'')"

definition digit_val :: "char \<Rightarrow> int" where
  "digit_val c = of_char c - 48"

definition atoi :: "string \<Rightarrow> int" where
  "atoi s = foldl (\<lambda>a c. 10 * a + digit_val c) 0 s"

section \<open>Numbers\<close>

subsection \<open>The type \<open>float64\<close>\<close>

text \<open>
  A \<open>float64\<close> is modelled by the rational number it stands for when it is finite
  and not the negative zero, and by one of four special values otherwise.
\<close>

datatype special = NegZero | PosInf | NegInf | NaN

datatype float64 = Finite rat | Special special

definition ipow :: "int \<Rightarrow> int \<Rightarrow> rat" where
  "ipow b k = (if 0 \<le> k then of_int b ^ nat k else 1 / of_int b ^ nat (- k))"

text \<open>The exponent \<open>k\<close> with \<open>b ^ k \<le> r < b ^ (k + 1)\<close>, for a positive \<open>r\<close>.\<close>

definition ilog :: "int \<Rightarrow> rat \<Rightarrow> int" where
  "ilog b r =
     (case quotient_of r of (n, d) \<Rightarrow>
        (let k = int (length (digits b n)) - int (length (digits b d))
         in if ipow b k \<le> r then k else k - 1))"

definition round_even :: "rat \<Rightarrow> int" where
  "round_even q =
     (let f = \<lfloor>q\<rfloor>; d = q - of_int f
      in if d < 1 / 2 then f else if 1 / 2 < d then f + 1 else if even f then f else f + 1)"

text \<open>
  The exponent of the unit in the last place of a positive value: 52 binary places
  below its leading bit, and never below the least exponent.
\<close>

definition ulp_exp :: "rat \<Rightarrow> int" where
  "ulp_exp r = max (ilog 2 r) (- 1022) - 52"

text \<open>The nearest \<open>float64\<close>, a tie going to the even one; \<open>None\<close> when out of range.\<close>

definition round_float64 :: "rat \<Rightarrow> rat option" where
  "round_float64 r =
     (if r = 0 then Some 0
      else (let a = \<bar>r\<bar>; u = ipow 2 (ulp_exp a);
                v = of_int (round_even (a / u)) * u
            in if 2 ^ 1024 \<le> v then None else Some (if r < 0 then - v else v)))"

text \<open>
  The conversion \<open>int(f)\<close>: truncation towards zero. Where the truncated value does
  not fit 64 bits, and for the infinities and NaN, the language leaves the result to the
  implementation; the value here is the one of the amd64 compiler, the least \<open>int64\<close>.
\<close>

definition trunc :: "rat \<Rightarrow> int" where
  "trunc r = (if 0 \<le> r then \<lfloor>r\<rfloor> else \<lceil>r\<rceil>)"

definition int_of_float :: "float64 \<Rightarrow> int" where
  "int_of_float f =
     (case f of
        Finite r \<Rightarrow> if - (2 ^ 63) \<le> trunc r \<and> trunc r < 2 ^ 63 then trunc r else - (2 ^ 63)
      | Special NegZero \<Rightarrow> 0
      | Special other \<Rightarrow> - (2 ^ 63))"

text \<open>The sum of two \<open>int\<close> wraps round at 64 bits.\<close>

definition wrap64 :: "int \<Rightarrow> int" where
  "wrap64 x = (x + 2 ^ 63) mod 2 ^ 64 - 2 ^ 63"

subsection \<open>Printing a \<open>float64\<close>\<close>

text \<open>
  The shortest decimal that reads back as the positive \<open>float64\<close> \<open>r\<close>: with \<open>n\<close>
  digits, the decimal next below \<open>r\<close> and the one next above are tried against the
  interval of the numbers that round to \<open>r\<close> (its ends count when the mantissa of
  \<open>r\<close> is even); where both fit, the nearer is taken. The result is the digits, without
  zeros at the end, and the place of the decimal point counted from the first digit.
\<close>

definition strip_zeros :: "string \<Rightarrow> string" where
  "strip_zeros ds = rev (dropWhile (\<lambda>c. c = CHR ''0'') (rev ds))"

definition shortest_at :: "rat \<Rightarrow> nat \<Rightarrow> (string \<times> int) option" where
  "shortest_at r n =
     (let e = ulp_exp r; u = ipow 2 e; mant = r / u;
          hi = r + u / 2;
          lo = r - (if mant = 2 ^ 52 \<and> - 1074 < e then u / 4 else u / 2);
          incl = even \<lfloor>mant\<rfloor>;
          k = ilog 10 r - int n + 1;
          scale = ipow 10 k;
          q = r / scale;
          dn = \<lfloor>q\<rfloor>;
          okdown = (lo < of_int dn * scale \<or> (incl \<and> lo = of_int dn * scale));
          okup = (of_int (dn + 1) * scale < hi \<or> (incl \<and> of_int (dn + 1) * scale = hi));
          pick = (\<lambda>c. Some (strip_zeros (digits 10 c), k + int (length (digits 10 c))))
      in if okdown \<and> okup then pick (round_even q)
         else if okdown then pick dn
         else if okup then pick (dn + 1)
         else None)"

definition shortest :: "rat \<Rightarrow> string \<times> int" where
  "shortest r =
     (case List.map_filter (shortest_at r) [1 ..< 18] of
        x # xs \<Rightarrow> x
      | [] \<Rightarrow> (strip_zeros (digits 10 (round_even (r / ipow 10 (ilog 10 r - 16)))),
                ilog 10 r + 1))"

definition fmt_exp :: "int \<Rightarrow> string" where
  "fmt_exp e =
     (if e < 0 then ''-'' else ''+'') @ (if \<bar>e\<bar> < 10 then ''0'' else []) @ digits 10 \<bar>e\<bar>"

text \<open>
  \<open>%v\<close> of a \<open>float64\<close> is \<open>strconv.FormatFloat(f, 'g', -1, 64)\<close>: the shortest
  digits, printed with an exponent when the decimal exponent is below -4 or at least 6
  (a million prints as \<open>1e+06\<close>), and as a plain decimal otherwise.
\<close>

definition fmt_g :: "float64 \<Rightarrow> string" where
  "fmt_g f =
     (case f of
        Special NegZero \<Rightarrow> ''-0''
      | Special PosInf \<Rightarrow> ''+Inf''
      | Special NegInf \<Rightarrow> ''-Inf''
      | Special NaN \<Rightarrow> ''NaN''
      | Finite r \<Rightarrow>
          if r = 0 then ''0''
          else (case shortest \<bar>r\<bar> of (ds, dp) \<Rightarrow>
                  (let sign = (if r < 0 then ''-'' else []);
                       x = dp - 1
                   in if x < - 4 \<or> 6 \<le> x
                      then sign @ [hd ds] @ (if tl ds = [] then [] else ''.'' @ tl ds)
                           @ ''e'' @ fmt_exp x
                      else if dp \<le> 0
                        then sign @ ''0.'' @ replicate (nat (- dp)) CHR ''0'' @ ds
                      else if int (length ds) \<le> dp
                        then sign @ ds @ replicate (nat dp - length ds) CHR ''0''
                      else sign @ take (nat dp) ds @ ''.'' @ drop (nat dp) ds)))"

text \<open>\<open>%.0f\<close>: the nearest integer, a tie going to the even one.\<close>

definition fmt_f0 :: "float64 \<Rightarrow> string" where
  "fmt_f0 f =
     (case f of
        Special NegZero \<Rightarrow> ''-0''
      | Special PosInf \<Rightarrow> ''+Inf''
      | Special NegInf \<Rightarrow> ''-Inf''
      | Special NaN \<Rightarrow> ''NaN''
      | Finite r \<Rightarrow> if r < 0 \<and> round_even r = 0 then ''-0'' else fmt_d (round_even r))"

subsection \<open>Scanning a number (\<open>fmt.Sscanf\<close>)\<close>

text \<open>
  \<open>SkipSpace\<close>: the white space before a number is passed over; a newline there is an
  error, and so is the end of the input where the number should begin.
\<close>

definition skip_space :: "string \<Rightarrow> string option" where
  "skip_space s =
     (let rest = trim_head (remove1 [NL] (asciiSpace @ unicodeSpace)) s
      in if rest = [] \<or> hd rest = NL then None else Some rest)"

text \<open>
  \<open>fmt.Sscanf(s, "%d", &x)\<close> reads an optional sign and the digits that follow,
  and fails when there is no digit or the number does not fit 64 bits; what follows the
  digits is left unread.
\<close>

definition scan_d :: "string \<Rightarrow> int option" where
  "scan_d s0 =
     (case skip_space s0 of
        None \<Rightarrow> None
      | Some s \<Rightarrow>
          (let neg = (hd s = CHR ''-'');
               body = (if hd s = CHR ''-'' \<or> hd s = CHR ''+'' then tl s else s);
               ds = takeWhile isDigit body;
               v = (if neg then - (atoi ds) else (atoi ds))
           in if ds = [] then None
              else if - (2 ^ 63) \<le> v \<and> v < 2 ^ 63 then Some v else None))"

text \<open>
  The token of a floating-point number (\<open>floatToken\<close>). A scanner is the token so far
  and the input left; \<open>accept\<close> takes one character of a set, when the next one is of
  the set.
\<close>

type_synonym scanner = "string \<times> string"

definition accept :: "string \<Rightarrow> scanner \<Rightarrow> bool \<times> scanner" where
  "accept ok sc =
     (case sc of (buf, inp) \<Rightarrow>
        (case inp of
           c # rest \<Rightarrow> if c \<in> set ok then (True, (buf @ [c], rest)) else (False, sc)
         | [] \<Rightarrow> (False, sc)))"

definition accept_all :: "string \<Rightarrow> scanner \<Rightarrow> scanner" where
  "accept_all ok sc =
     (case sc of (buf, inp) \<Rightarrow>
        (buf @ takeWhile (\<lambda>c. c \<in> set ok) inp, dropWhile (\<lambda>c. c \<in> set ok) inp))"

definition accept3 :: "string \<Rightarrow> string \<Rightarrow> string \<Rightarrow> scanner \<Rightarrow> bool \<times> scanner" where
  "accept3 a b c sc =
     (case accept a sc of
        (False, s1) \<Rightarrow> (False, s1)
      | (True, s1) \<Rightarrow>
          (case accept b s1 of
             (False, s2) \<Rightarrow> (False, s2)
           | (True, s2) \<Rightarrow> accept c s2))"

definition decimalDigits :: string where "decimalDigits = ''0123456789''"
definition hexadecimalDigits :: string where "hexadecimalDigits = ''0123456789aAbBcCdDeEfF''"

definition floatToken :: "string \<Rightarrow> string" where
  "floatToken inp =
     (case accept3 ''nN'' ''aA'' ''nN'' ([], inp) of
        (True, sc) \<Rightarrow> fst sc
      | (False, sc0) \<Rightarrow>
          (let sc1 = snd (accept ''+-'' sc0)
           in (case accept3 ''iI'' ''nN'' ''fF'' sc1 of
                 (True, sc) \<Rightarrow> fst sc
               | (False, sc2) \<Rightarrow>
                   (let zero = accept ''0'' sc2;
                        x = (if fst zero then accept ''xX'' (snd zero) else (False, snd zero));
                        digs = (if fst x then hexadecimalDigits else decimalDigits) @ ''_'';
                        exp = (if fst x then ''pP'' else ''eEpP'');
                        sc4 = accept_all digs (snd x);
                        point = accept ''.'' sc4;
                        sc5 = (if fst point then accept_all digs (snd point) else snd point);
                        e = accept exp sc5;
                        sc6 = (if fst e
                               then accept_all (decimalDigits @ ''_'') (snd (accept ''+-'' (snd e)))
                               else snd e)
                    in fst sc6))))"

text \<open>
  \<open>strconv.ParseFloat(s, 64)\<close>. The special forms first: \<open>inf\<close> or \<open>infinity\<close>
  with an optional sign, and \<open>nan\<close>, in either case of the letters.
\<close>

definition to_lower :: "char \<Rightarrow> char" where
  "to_lower c = (if c \<in> set ''ABCDEFGHIJKLMNOPQRSTUVWXYZ'' then char_of (of_char c + (32::nat)) else c)"

fun commonPrefixLenIgnoreCase :: "string \<Rightarrow> string \<Rightarrow> nat" where
  "commonPrefixLenIgnoreCase (c # s) (p # prefix) =
     (if to_lower c = p then Suc (commonPrefixLenIgnoreCase s prefix) else 0)"
| "commonPrefixLenIgnoreCase s prefix = 0"

definition parse_special :: "string \<Rightarrow> (float64 \<times> nat) option" where
  "parse_special s =
     (if s = [] then None
      else if hd s \<in> set ''+-iI''
        then (let signed = (hd s \<in> set ''+-'');
                  n = commonPrefixLenIgnoreCase (if signed then tl s else s) ''infinity'';
                  n = (if 3 < n \<and> n < 8 then 3 else n)
              in if n = 3 \<or> n = 8
                 then Some (Special (if hd s = CHR ''-'' then NegInf else PosInf),
                            (if signed then 1 else 0) + n)
                 else None)
      else if hd s \<in> set ''nN''
        then (if commonPrefixLenIgnoreCase s ''nan'' = 3 then Some (Special NaN, 3) else None)
      else None)"

text \<open>
  An underscore may stand only between two digits, or between a base prefix and a
  digit (\<open>underscoreOK\<close>). The state of the scan is what was seen last: a digit, an
  underscore, or something else.
\<close>

datatype seen_last = SawStart | SawDigit | SawUnderscore | SawOther

fun underscores_from :: "bool \<Rightarrow> seen_last \<Rightarrow> string \<Rightarrow> bool" where
  "underscores_from hex saw [] = (saw \<noteq> SawUnderscore)"
| "underscores_from hex saw (c # cs) =
     (if isDigit c \<or> (hex \<and> c \<in> set ''abcdefABCDEF'') then underscores_from hex SawDigit cs
      else if c = CHR ''_''
        then (if saw \<noteq> SawDigit then False else underscores_from hex SawUnderscore cs)
      else if saw = SawUnderscore then False
      else underscores_from hex SawOther cs)"

definition underscoreOK :: "string \<Rightarrow> bool" where
  "underscoreOK s0 =
     (let s = (if s0 \<noteq> [] \<and> hd s0 \<in> set ''+-'' then tl s0 else s0);
          prefixed = (2 \<le> length s \<and> hd s = CHR ''0'' \<and> s ! 1 \<in> set ''bBoOxX'')
      in if prefixed then underscores_from (s ! 1 \<in> set ''xX'') SawDigit (drop 2 s)
         else underscores_from False SawStart s)"

text \<open>
  The number proper (\<open>readFloat\<close>): a sign, the digits with at most one point, in base
  16 after \<open>0x\<close>, and an exponent, which the base 16 must have. The result is the exact
  magnitude, the sign and the length read. The digits of an exponent are counted as long as
  the count is below 10000.
\<close>

definition hex_val :: "char \<Rightarrow> int" where
  "hex_val c = (if isDigit c then digit_val c
                else if c \<in> set ''abcdef'' then of_char c - 87 else of_char c - 55)"

definition digits_value :: "int \<Rightarrow> string \<Rightarrow> int" where
  "digits_value base ds = foldl (\<lambda>a c. base * a + hex_val c) 0 ds"

definition exponent_value :: "string \<Rightarrow> int" where
  "exponent_value ds = foldl (\<lambda>e c. if e < 10000 then e * 10 + digit_val c else e) 0 ds"

definition readFloat :: "string \<Rightarrow> (rat \<times> bool \<times> nat) option" where
  "readFloat s =
     (let neg = (s \<noteq> [] \<and> hd s = CHR ''-'');
          s1 = (if s \<noteq> [] \<and> hd s \<in> set ''+-'' then tl s else s);
          hex = (3 \<le> length s1 \<and> hd s1 = CHR ''0'' \<and> s1 ! 1 \<in> set ''xX'');
          s2 = (if hex then drop 2 s1 else s1);
          isdig = (\<lambda>c. isDigit c \<or> (hex \<and> c \<in> set ''abcdefABCDEF''));
          ip = takeWhile (\<lambda>c. isdig c \<or> c = CHR ''_'') s2;
          r1 = drop (length ip) s2;
          dot = (r1 \<noteq> [] \<and> hd r1 = CHR ''.'');
          fp = (if dot then takeWhile (\<lambda>c. isdig c \<or> c = CHR ''_'') (tl r1) else []);
          r2 = (if dot then drop (Suc (length fp)) r1 else r1);
          idigits = filter isdig ip;
          fdigits = filter isdig fp;
          base = (if hex then 16 else 10);
          mant = of_int (digits_value base (idigits @ fdigits)) / of_int base ^ length fdigits;
          hasExp = (r2 \<noteq> [] \<and> hd r2 \<in> set (if hex then ''pP'' else ''eE''));
          r3 = tl r2;
          eneg = (r3 \<noteq> [] \<and> hd r3 = CHR ''-'');
          r4 = (if r3 \<noteq> [] \<and> hd r3 \<in> set ''+-'' then tl r3 else r3);
          ed = takeWhile (\<lambda>c. isDigit c \<or> c = CHR ''_'') r4;
          e = exponent_value (filter isDigit ed);
          r5 = (if hasExp then drop (length ed) r4 else r2);
          n = length s - length r5;
          v = (if hasExp then mant * ipow (if hex then 2 else 10) (if eneg then - e else e)
               else mant)
      in if idigits = [] \<and> fdigits = [] then None
         else if hasExp \<and> (r4 = [] \<or> \<not> isDigit (hd r4)) then None
         else if hex \<and> \<not> hasExp then None
         else if CHR ''_'' \<in> set (take n s) \<and> \<not> underscoreOK (take n s) then None
         else Some (v, neg, n))"

text \<open>The signed result of rounding a magnitude; the zero keeps the sign.\<close>

definition signed_float :: "bool \<Rightarrow> rat \<Rightarrow> float64" where
  "signed_float neg r = (if r = 0 then (if neg then Special NegZero else Finite 0)
                         else Finite (if neg then - r else r))"

definition ParseFloat :: "string \<Rightarrow> float64 option" where
  "ParseFloat s =
     (case parse_special s of
        Some (f, n) \<Rightarrow> if n = length s then Some f else None
      | None \<Rightarrow>
          (case readFloat s of
             None \<Rightarrow> None
           | Some (v, neg, n) \<Rightarrow>
               if n \<noteq> length s then None
               else (case round_float64 v of
                       None \<Rightarrow> None
                     | Some r \<Rightarrow> Some (signed_float neg r))))"

text \<open>\<open>strconv.Atoi\<close>: a sign and digits, all of the string, within 64 bits.\<close>

definition Atoi :: "string \<Rightarrow> int option" where
  "Atoi s =
     (let neg = (s \<noteq> [] \<and> hd s = CHR ''-'');
          ds = (if s \<noteq> [] \<and> hd s \<in> set ''+-'' then tl s else s);
          v = (if neg then - atoi ds else atoi ds)
      in if ds = [] \<or> \<not> list_all isDigit ds then None
         else if - (2 ^ 63) \<le> v \<and> v < 2 ^ 63 then Some v else None)"

text \<open>
  \<open>math.Ldexp(f, m)\<close> is \<open>f\<close> times the \<open>m\<close>-th power of two, rounded; out of
  range it is an infinity. An exponent beyond 2200 either way gives what 2200 gives.
\<close>

definition Ldexp :: "float64 \<Rightarrow> int \<Rightarrow> float64" where
  "Ldexp f m =
     (case f of
        Special sp \<Rightarrow> Special sp
      | Finite r \<Rightarrow>
          if r = 0 then Finite 0
          else (case round_float64 (r * ipow 2 (max (- 2200) (min 2200 m))) of
                  None \<Rightarrow> Special (if r < 0 then NegInf else PosInf)
                | Some v \<Rightarrow> signed_float (r < 0) \<bar>v\<bar>))"

text \<open>
  \<open>convertFloat\<close>: a decimal mantissa with an exponent \<open>p\<close> of two is worked out
  here, everything else by \<open>ParseFloat\<close>.
\<close>

definition convertFloat :: "string \<Rightarrow> float64 option" where
  "convertFloat str =
     (if CHR ''p'' \<in> set str \<and> CHR ''x'' \<notin> set str \<and> CHR ''X'' \<notin> set str
      then (let p = length (takeWhile (\<lambda>c. c \<noteq> CHR ''p'') str)
            in (case (ParseFloat (take p str), Atoi (drop (Suc p) str)) of
                  (Some f, Some m) \<Rightarrow> Some (Ldexp f m)
                | _ \<Rightarrow> None))
      else ParseFloat str)"

text \<open>\<open>fmt.Sscanf(s, "%f", &w)\<close>; \<open>None\<close> is the error, which leaves \<open>w\<close> as it was.\<close>

definition scan_f :: "string \<Rightarrow> float64 option" where
  "scan_f s = (case skip_space s of None \<Rightarrow> None | Some t \<Rightarrow> convertFloat (floatToken t))"

section \<open>Regular expressions\<close>

text \<open>
  Package \<open>regexp\<close> returns the leftmost match and, among the matches that start
  there, the one a backtracking search finds first. \<open>rmatch r b s\<close> lists, in that
  order of preference, every way \<open>r\<close> matches a prefix of \<open>s\<close>: the rest of the
  text after the match and the groups captured. \<open>b\<close> says that \<open>s\<close> starts the text
  (for \<open>^\<close>). \<open>Star\<close> is the greedy star, \<open>Lazy\<close> the non-greedy one.
\<close>

datatype rx =
    Chr char
  | Cls "char \<Rightarrow> bool"
  | Eps
  | Bol
  | Eol
  | Seq rx rx
  | Alt rx rx
  | Star rx
  | Lazy rx
  | Grp nat rx

type_synonym caps = "(nat \<times> string) list"

function rmatch :: "rx \<Rightarrow> bool \<Rightarrow> string \<Rightarrow> (string \<times> caps) list" where
  "rmatch (Chr c) b s = (case s of [] \<Rightarrow> [] | x # xs \<Rightarrow> if x = c then [(xs, [])] else [])"
| "rmatch (Cls p) b s = (case s of [] \<Rightarrow> [] | x # xs \<Rightarrow> if p x then [(xs, [])] else [])"
| "rmatch Eps b s = [(s, [])]"
| "rmatch Bol b s = (if b then [(s, [])] else [])"
| "rmatch Eol b s = (if s = [] then [(s, [])] else [])"
| "rmatch (Seq r1 r2) b s =
     concat (map (\<lambda>(s1, c1). map (\<lambda>(s2, c2). (s2, c2 @ c1))
                                   (rmatch r2 (b \<and> length s1 = length s) s1))
                 (rmatch r1 b s))"
| "rmatch (Alt r1 r2) b s = rmatch r1 b s @ rmatch r2 b s"
| "rmatch (Star r) b s =
     concat (map (\<lambda>(s1, c1). if length s1 < length s
                               then map (\<lambda>(s2, c2). (s2, c2 @ c1)) (rmatch (Star r) False s1)
                               else [])
                 (rmatch r b s)) @ [(s, [])]"
| "rmatch (Lazy r) b s =
     (s, []) # concat (map (\<lambda>(s1, c1). if length s1 < length s
                               then map (\<lambda>(s2, c2). (s2, c2 @ c1)) (rmatch (Lazy r) False s1)
                               else [])
                 (rmatch r b s))"
| "rmatch (Grp n r) b s =
     map (\<lambda>(s1, c1). (s1, (n, take (length s - length s1) s) # c1)) (rmatch r b s)"
  by pat_completeness auto
termination
  by (relation "inv_image (less_than <*lex*> less_than) (\<lambda>(r, b, s). (size r, length s))") auto

lemmas rmatch_Star = rmatch.simps(8)
lemmas rmatch_Lazy = rmatch.simps(9)
declare rmatch.simps(8,9) [simp del]

fun Cat :: "rx list \<Rightarrow> rx" where
  "Cat [] = Eps"
| "Cat [r] = r"
| "Cat (r # rs) = Seq r (Cat rs)"

definition Str :: "string \<Rightarrow> rx" where "Str s = Cat (map Chr s)"
definition Plus :: "rx \<Rightarrow> rx" where "Plus r = Seq r (Star r)"
definition LazyPlus :: "rx \<Rightarrow> rx" where "LazyPlus r = Seq r (Lazy r)"
definition Opt :: "rx \<Rightarrow> rx" where "Opt r = Alt r Eps"
definition NotIn :: "string \<Rightarrow> rx" where "NotIn cs = Cls (\<lambda>c. c \<notin> set cs)"
definition OneOf :: "string \<Rightarrow> rx" where "OneOf cs = Cls (\<lambda>c. c \<in> set cs)"

text \<open>The classes \<open>\w\<close>, \<open>\d\<close>, \<open>\s\<close> and \<open>.\<close> (any byte but a newline).\<close>

definition reWord :: rx where
  "reWord = OneOf ''0123456789ABCDEFGHIJKLMNOPQRSTUVWXYZ_abcdefghijklmnopqrstuvwxyz''"
definition reDigit :: rx where "reDigit = OneOf ''0123456789''"
definition reSpace :: rx where "reSpace = OneOf [TAB, NL, CHR 0x0C, CHR 0x0D, CHR '' '']"
definition reDot :: rx where "reDot = NotIn [NL]"

text \<open>
  The search of \<open>FindStringIndex\<close>: the first position, from the left, where the
  expression matches, with the match preferred there. The result is the start, the end
  and the captured groups.
\<close>

fun find_at :: "rx \<Rightarrow> bool \<Rightarrow> nat \<Rightarrow> string \<Rightarrow> (nat \<times> nat \<times> caps) option" where
  "find_at r b i s =
     (case rmatch r b s of
        (rest, cs) # _ \<Rightarrow> Some (i, i + (length s - length rest), cs)
      | [] \<Rightarrow> (case s of [] \<Rightarrow> None | _ # xs \<Rightarrow> find_at r False (Suc i) xs))"

declare find_at.simps [simp del]

definition FindStringIndex :: "rx \<Rightarrow> string \<Rightarrow> (nat \<times> nat) option" where
  "FindStringIndex r s = map_option (\<lambda>(a, b, cs). (a, b)) (find_at r True 0 s)"

definition MatchString :: "rx \<Rightarrow> string \<Rightarrow> bool" where
  "MatchString r s = (find_at r True 0 s \<noteq> None)"

text \<open>
  \<open>FindStringSubmatch\<close>: the match and the text of the groups \<open>1..k\<close>, the empty
  string for a group that took no part in the match.
\<close>

fun ngroups :: "rx \<Rightarrow> nat" where
  "ngroups (Seq r1 r2) = max (ngroups r1) (ngroups r2)"
| "ngroups (Alt r1 r2) = max (ngroups r1) (ngroups r2)"
| "ngroups (Star r) = ngroups r"
| "ngroups (Lazy r) = ngroups r"
| "ngroups (Grp n r) = max n (ngroups r)"
| "ngroups _ = 0"

definition grp :: "caps \<Rightarrow> nat \<Rightarrow> string" where
  "grp cs k = (case map_of cs k of None \<Rightarrow> [] | Some t \<Rightarrow> t)"

definition submatches :: "rx \<Rightarrow> string \<Rightarrow> nat \<times> nat \<times> caps \<Rightarrow> string list" where
  "submatches r s m = (case m of (a, b, cs) \<Rightarrow>
     take (b - a) (drop a s) # map (grp cs) [1 ..< Suc (ngroups r)])"

definition FindStringSubmatch :: "rx \<Rightarrow> string \<Rightarrow> string list option" where
  "FindStringSubmatch r s = map_option (submatches r s) (find_at r True 0 s)"

text \<open>
  \<open>FindAllStringSubmatch(s, -1)\<close>: the successive matches, each search starting
  where the last match ended (one byte further after an empty match).
\<close>

function find_all :: "rx \<Rightarrow> bool \<Rightarrow> string \<Rightarrow> string list list" where
  "find_all r b s =
     (case find_at r b 0 s of
        None \<Rightarrow> []
      | Some (a, e, cs) \<Rightarrow>
          submatches r s (a, e, cs) #
          (if 0 < e \<and> e \<le> length s then find_all r False (drop e s)
           else (case s of [] \<Rightarrow> [] | _ # xs \<Rightarrow> find_all r False xs)))"
  by pat_completeness auto
termination
  by (relation "measure (\<lambda>(r, b, s). length s)") auto

declare find_all.simps [simp del]

definition FindAllStringSubmatch :: "rx \<Rightarrow> string \<Rightarrow> string list list" where
  "FindAllStringSubmatch r s = find_all r True s"




subsection \<open>Matches lie within the text\<close>

lemma rmatch_Star_cases:
  assumes "(rest, c) \<in> set (rmatch (Star r) b s)"
  shows "(rest = s \<and> c = []) \<or>
         (\<exists>s1 c1 c2. (s1, c1) \<in> set (rmatch r b s) \<and> length s1 < length s \<and>
            (rest, c2) \<in> set (rmatch (Star r) False s1) \<and> c = c2 @ c1)"
  using assms by (subst (asm) rmatch_Star) (auto split: if_splits)

lemma rmatch_Lazy_cases:
  assumes "(rest, c) \<in> set (rmatch (Lazy r) b s)"
  shows "(rest = s \<and> c = []) \<or>
         (\<exists>s1 c1 c2. (s1, c1) \<in> set (rmatch r b s) \<and> length s1 < length s \<and>
            (rest, c2) \<in> set (rmatch (Lazy r) False s1) \<and> c = c2 @ c1)"
  using assms by (subst (asm) rmatch_Lazy) (auto split: if_splits)

lemma rmatch_Seq_cases:
  assumes "(rest, c) \<in> set (rmatch (Seq r1 r2) b s)"
  shows "\<exists>s1 c1 c2. (s1, c1) \<in> set (rmatch r1 b s) \<and>
            (rest, c2) \<in> set (rmatch r2 (b \<and> length s1 = length s) s1) \<and> c = c2 @ c1"
  using assms by auto

lemma rmatch_length:
  "(rest, c) \<in> set (rmatch r b s) \<Longrightarrow> length rest \<le> length s"
proof (induction r arbitrary: rest c b s)
  case (Seq r1 r2)
  from rmatch_Seq_cases[OF Seq.prems] obtain s1 c1 c2 where
    a: "(s1, c1) \<in> set (rmatch r1 b s)" and
    b: "(rest, c2) \<in> set (rmatch r2 (b \<and> length s1 = length s) s1)" by blast
  from Seq.IH(1)[OF a] Seq.IH(2)[OF b] show ?case by simp
next
  case (Star r)
  from Star.prems show ?case
  proof (induction "length s" arbitrary: s rest c b rule: less_induct)
    case less
    from rmatch_Star_cases[OF less.prems] show ?case
    proof
      assume "rest = s \<and> c = []" then show ?thesis by simp
    next
      assume "\<exists>s1 c1 c2. (s1, c1) \<in> set (rmatch r b s) \<and> length s1 < length s \<and>
            (rest, c2) \<in> set (rmatch (Star r) False s1) \<and> c = c2 @ c1"
      then obtain s1 c1 c2 where l: "length s1 < length s"
        and m: "(rest, c2) \<in> set (rmatch (Star r) False s1)" by blast
      from less.hyps[OF l m] l show ?thesis by simp
    qed
  qed
next
  case (Lazy r)
  from Lazy.prems show ?case
  proof (induction "length s" arbitrary: s rest c b rule: less_induct)
    case less
    from rmatch_Lazy_cases[OF less.prems] show ?case
    proof
      assume "rest = s \<and> c = []" then show ?thesis by simp
    next
      assume "\<exists>s1 c1 c2. (s1, c1) \<in> set (rmatch r b s) \<and> length s1 < length s \<and>
            (rest, c2) \<in> set (rmatch (Lazy r) False s1) \<and> c = c2 @ c1"
      then obtain s1 c1 c2 where l: "length s1 < length s"
        and m: "(rest, c2) \<in> set (rmatch (Lazy r) False s1)" by blast
      from less.hyps[OF l m] l show ?thesis by simp
    qed
  qed
qed (auto split: list.splits if_splits)


text \<open>An expression that consumes at least one byte in every match.\<close>

fun consumes :: "rx \<Rightarrow> bool" where
  "consumes (Chr c) = True"
| "consumes (Cls p) = True"
| "consumes (Seq r1 r2) = (consumes r1 \<or> consumes r2)"
| "consumes (Alt r1 r2) = (consumes r1 \<and> consumes r2)"
| "consumes (Grp n r) = consumes r"
| "consumes _ = False"

lemma rmatch_consumes:
  "consumes r \<Longrightarrow> (rest, c) \<in> set (rmatch r b s) \<Longrightarrow> length rest < length s"
proof (induction r arbitrary: rest c b s)
  case (Chr x)
  then show ?case by (auto split: list.splits if_splits)
next
  case (Cls p)
  then show ?case by (auto split: list.splits if_splits)
next
  case (Seq r1 r2)
  from Seq.prems(2) obtain s1 c1 c2 where
    a: "(s1, c1) \<in> set (rmatch r1 b s)" and
    b: "(rest, c2) \<in> set (rmatch r2 (b \<and> length s1 = length s) s1)"
    by (auto split: prod.splits)
  from a have l1: "length s1 \<le> length s" by (rule rmatch_length)
  from b have l2: "length rest \<le> length s1" by (rule rmatch_length)
  from Seq.prems(1) have "consumes r1 \<or> consumes r2" by simp
  then show ?case
  proof
    assume "consumes r1"
    with Seq.IH(1) a have "length s1 < length s" by blast
    with l2 show ?thesis by simp
  next
    assume "consumes r2"
    with Seq.IH(2) b have "length rest < length s1" by blast
    with l1 show ?thesis by simp
  qed
next
  case (Alt r1 r2)
  then show ?case by auto
next
  case (Grp n r)
  then show ?case by auto
qed simp_all

lemma find_at_bounds:
  "find_at r b i s = Some (a, e, cs) \<Longrightarrow> i \<le> a \<and> a \<le> e \<and> e \<le> i + length s"
proof (induction s arbitrary: b i)
  case Nil
  then show ?case by (auto simp: find_at.simps split: list.splits prod.splits dest: rmatch_length)
next
  case (Cons x xs)
  show ?case
  proof (cases "rmatch r b (x # xs)")
    case Nil
    with Cons.prems have "find_at r False (Suc i) xs = Some (a, e, cs)"
      by (simp add: find_at.simps)
    from Cons.IH[OF this] show ?thesis by simp
  next
    case (Cons m ms)
    obtain rest c where m: "m = (rest, c)" by (cases m)
    with Cons have "(rest, c) \<in> set (rmatch r b (x # xs))" by simp
    then have "length rest \<le> length (x # xs)" by (rule rmatch_length)
    with Cons m Cons.prems show ?thesis by (auto simp: find_at.simps)
  qed
qed

lemma find_at_consumes:
  "consumes r \<Longrightarrow> find_at r b i s = Some (a, e, cs) \<Longrightarrow> a < e"
proof (induction s arbitrary: b i)
  case Nil
  show ?case
  proof (cases "rmatch r b []")
    case Nil
    with Nil.prems show ?thesis by (simp add: find_at.simps)
  next
    case (Cons m ms)
    obtain rest c where m: "m = (rest, c)" by (cases m)
    with Cons have "(rest, c) \<in> set (rmatch r b [])" by simp
    with Nil.prems(1) have "length rest < length ([]::string)" by (rule rmatch_consumes)
    then show ?thesis by simp
  qed
next
  case (Cons x xs)
  show ?case
  proof (cases "rmatch r b (x # xs)")
    case Nil
    with Cons.prems have "find_at r False (Suc i) xs = Some (a, e, cs)"
      by (simp add: find_at.simps)
    from Cons.IH[OF Cons.prems(1) this] show ?thesis .
  next
    case (Cons m ms)
    obtain rest c where m: "m = (rest, c)" by (cases m)
    with Cons have "(rest, c) \<in> set (rmatch r b (x # xs))" by simp
    with Cons.prems(1) have "length rest < length (x # xs)" by (rule rmatch_consumes)
    with Cons m Cons.prems show ?thesis by (auto simp: find_at.simps)
  qed
qed


function replace_all :: "rx \<Rightarrow> bool \<Rightarrow> string \<Rightarrow> string \<Rightarrow> string" where
  "replace_all r b s repl =
     (case find_at r b 0 s of
        None \<Rightarrow> s
      | Some (a, e, cs) \<Rightarrow>
          take a s @ repl @
          (if 0 < e \<and> e \<le> length s then replace_all r False (drop e s) repl
           else (case s of [] \<Rightarrow> [] | x # xs \<Rightarrow> x # replace_all r False xs repl)))"
  by pat_completeness auto
termination
  by (relation "measure (\<lambda>(r, b, s, repl). length s)") auto

declare replace_all.simps [simp del]

definition ReplaceAllString :: "rx \<Rightarrow> string \<Rightarrow> string \<Rightarrow> string" where
  "ReplaceAllString r s repl = replace_all r True s repl"

section \<open>Values of type \<open>any\<close>\<close>

text \<open>
  The converter builds and reads documents as \<open>map[string]any\<close>. A value of type
  \<open>any\<close> is one of the dynamic types below; a type assertion \<open>v.(T)\<close> succeeds only
  on the constructor of \<open>T\<close>, so an \<open>int\<close> is not a \<open>float64\<close>. A map is an
  association list read with \<open>map_of\<close>; a \<open>float64\<close> is modelled by the rational it
  holds.
\<close>

datatype val =
    VNil
  | VStr string
  | VInt int
  | VFloat rat
  | VSpecial special
  | VBool bool
  | VList "val list"
  | VMap "(string \<times> val) list"

type_synonym node = "(string \<times> val) list"

definition as_string :: "val option \<Rightarrow> string" where
  "as_string v = (case v of Some (VStr s) \<Rightarrow> s | _ \<Rightarrow> [])"

definition as_map :: "val option \<Rightarrow> node option" where
  "as_map v = (case v of Some (VMap m) \<Rightarrow> Some m | _ \<Rightarrow> None)"

definition as_list :: "val option \<Rightarrow> val list option" where
  "as_list v = (case v of Some (VList xs) \<Rightarrow> Some xs | _ \<Rightarrow> None)"

definition as_float :: "val option \<Rightarrow> float64 option" where
  "as_float v = (case v of Some (VFloat r) \<Rightarrow> Some (Finite r)
                 | Some (VSpecial sp) \<Rightarrow> Some (Special sp) | _ \<Rightarrow> None)"

definition val_of_float :: "float64 \<Rightarrow> val" where
  "val_of_float f = (case f of Finite r \<Rightarrow> VFloat r | Special sp \<Rightarrow> VSpecial sp)"

section \<open>Utilities (utils.go)\<close>

subsection \<open>The patterns\<close>

definition FenceBlockRe :: rx where
  "FenceBlockRe = Cat [Bol, Str ''~~~'', Grp 1 (Plus reWord),
                       Opt (Seq (Plus reSpace) (Grp 2 (Star reDot))), Eol]"

definition FenceCloseRe :: rx where
  "FenceCloseRe = Cat [Bol, Str ''~~~'', Star reSpace, Eol]"

definition MetadataCommentRe :: rx where
  "MetadataCommentRe = Cat [Str ''<!--'', Star reSpace, Str ''adf:'', Grp 1 (Plus reWord),
                            Plus reSpace, Grp 2 (LazyPlus reDot), Star reSpace, Str ''-->'']"

definition AttrPairRe :: rx where
  "AttrPairRe = Cat [Grp 1 (Plus reWord), Chr CHR ''='',
                     Alt (Cat [Chr DQ, Grp 2 (Star (NotIn [DQ])), Chr DQ])
                         (Grp 3 (Plus (NotIn [TAB, NL, CHR 0x0C, CHR 0x0D, CHR '' '', DQ])))]"

definition ExtMentionRe :: rx where
  "ExtMentionRe = Cat [Str ''{user:'', Grp 1 (Plus (NotIn ''}'')), Chr CHR ''}'']"

definition ExtDateRe :: rx where
  "ExtDateRe = Cat [Str ''{date:'', Grp 1 (Plus (NotIn ''}'')), Chr CHR ''}'']"

definition ExtStatusRe :: rx where
  "ExtStatusRe = Cat [Str ''{status:'', Grp 1 (Plus (NotIn ''|}'')),
                      Opt (Seq (Chr CHR ''|'') (Grp 2 (Plus (NotIn ''}'')))), Chr CHR ''}'']"

definition ExtCardRe :: rx where
  "ExtCardRe = Cat [Str ''{card:'', Grp 1 (Plus (NotIn ''}'')), Chr CHR ''}'']"

definition ExtColorRe :: rx where
  "ExtColorRe = Cat [Str ''{color:'', Grp 1 (Plus (NotIn ''}'')), Chr CHR ''}'',
                     Grp 2 (LazyPlus reDot), Str ''{color}'']"

definition EmojiCodeRe :: rx where
  "EmojiCodeRe = Cat [Chr CHR '':'',
                      Grp 1 (Plus (OneOf ''abcdefghijklmnopqrstuvwxyz0123456789_+-'')),
                      Chr CHR '':'']"

definition TaskItemRe :: rx where
  "TaskItemRe = Cat [Bol, Grp 1 (Star reSpace), Str ''- ['', Grp 2 (OneOf '' xX''), Chr CHR '']'',
                     Plus reSpace, Grp 3 (Star reDot), Eol]"

subsection \<open>Attribute strings\<close>

definition lookup :: "(string \<times> string) list \<Rightarrow> string \<Rightarrow> string" where
  "lookup m k = (case map_of m k of None \<Rightarrow> [] | Some v \<Rightarrow> v)"

definition ParseAttrs :: "string \<Rightarrow> (string \<times> string) list" where
  "ParseAttrs attrStr =
     foldl (\<lambda>result m.
              if 4 \<le> length m
              then (let v = m ! 2; v = (if v = [] then m ! 3 else v)
                    in AList.update (m ! 1) v result)
              else result)
           [] (FindAllStringSubmatch AttrPairRe attrStr)"

text \<open>
  \<open>%v\<close> of a \<open>float64\<close> prints the shortest digits that read back as the same
  float; the model prints an integral value below \<open>10^21\<close> as Go does and
  leaves the digits of any other value out.
\<close>

definition fmt_attr :: "string \<Rightarrow> val \<Rightarrow> string list" where
  "fmt_attr key v =
     (case v of
        VStr s \<Rightarrow> (if s \<noteq> [] then [key @ [CHR ''='', DQ] @ s @ [DQ]] else [])
      | VFloat r \<Rightarrow> [key @ [CHR ''='', DQ] @ fmt_g (Finite r) @ [DQ]]
      | VSpecial sp \<Rightarrow> [key @ [CHR ''='', DQ] @ fmt_g (Special sp) @ [DQ]]
      | VInt i \<Rightarrow> [key @ [CHR ''='', DQ] @ fmt_d i @ [DQ]]
      | VBool b \<Rightarrow> [key @ [CHR ''='', DQ] @ (if b then ''true'' else ''false'') @ [DQ]]
      | _ \<Rightarrow> [])"

definition FormatAttrsForFence :: "node \<Rightarrow> string list \<Rightarrow> string" where
  "FormatAttrsForFence attrs keys =
     (let parts = concat (map (\<lambda>key. case map_of attrs key of
                                        Some v \<Rightarrow> fmt_attr key v | None \<Rightarrow> []) keys)
      in if parts = [] then [] else '' '' @ Join parts '' '')"

subsection \<open>Local identifiers\<close>

text \<open>
  \<open>GenerateLocalID\<close> reads the clock and eight random bytes. Both come from the
  environment: \<open>src k\<close> is what the \<open>k\<close>-th call reads (the clock in nanoseconds, the
  eight bytes as one number), and the count of calls made so far is passed along.
\<close>

type_synonym entropy = "nat \<Rightarrow> int \<times> int"

definition GenerateLocalID :: "entropy \<Rightarrow> nat \<Rightarrow> string \<times> nat" where
  "GenerateLocalID src n =
     (case src n of (clock, bytes) \<Rightarrow>
        (fmt_x (clock AND 0xFFFFFFFF) @ ''-'' @ pad0 16 (digits 16 (bytes mod 2 ^ 64)), Suc n))"

subsection \<open>Timestamps\<close>

text \<open>
  Package \<open>time\<close> is modelled by the proleptic Gregorian calendar: days are counted
  from 1970-01-01, a \<open>Location\<close> gives the offset from UTC, in seconds, in effect at
  an instant.
\<close>

type_synonym location = "int \<Rightarrow> int"

definition UTC :: location where "UTC = (\<lambda>_. 0)"

definition days_from_civil :: "int \<Rightarrow> int \<Rightarrow> int \<Rightarrow> int" where
  "days_from_civil y m d =
     (let y' = (if m \<le> 2 then y - 1 else y);
          era = y' div 400;
          yoe = y' - era * 400;
          doy = (153 * (if 2 < m then m - 3 else m + 9) + 2) div 5 + d - 1;
          doe = yoe * 365 + yoe div 4 - yoe div 100 + doy
      in era * 146097 + doe - 719468)"

definition civil_from_days :: "int \<Rightarrow> int \<times> int \<times> int" where
  "civil_from_days z0 =
     (let z = z0 + 719468;
          era = z div 146097;
          doe = z - era * 146097;
          yoe = (doe - doe div 1460 + doe div 36524 - doe div 146096) div 365;
          doy = doe - (365 * yoe + yoe div 4 - yoe div 100);
          mp = (5 * doy + 2) div 153;
          d = doy - (153 * mp + 2) div 5 + 1;
          m = (if mp < 10 then mp + 3 else mp - 9)
      in (if m \<le> 2 then yoe + era * 400 + 1 else yoe + era * 400, m, d))"

definition isLeap :: "int \<Rightarrow> bool" where
  "isLeap y = (y mod 4 = 0 \<and> (y mod 100 \<noteq> 0 \<or> y mod 400 = 0))"

definition daysIn :: "int \<Rightarrow> int \<Rightarrow> int" where
  "daysIn m y = (if m = 2 then (if isLeap y then 29 else 28)
                 else if m = 4 \<or> m = 6 \<or> m = 9 \<or> m = 11 then 30 else 31)"

definition all_digits :: "string \<Rightarrow> bool" where
  "all_digits s = list_all isDigit s"

text \<open>\<open>time.Parse("2006-01-02", s)\<close>: the milliseconds since the epoch, in UTC.\<close>

definition parse_date :: "string \<Rightarrow> int option" where
  "parse_date s =
     (if length s = 10 \<and> all_digits (take 4 s) \<and> s ! 4 = CHR ''-'' \<and>
         all_digits (take 2 (drop 5 s)) \<and> s ! 7 = CHR ''-'' \<and> all_digits (drop 8 s)
      then (let y = (atoi (take 4 s)); m = (atoi (take 2 (drop 5 s)));
                d = (atoi (drop 8 s))
            in if 1 \<le> m \<and> m \<le> 12 \<and> 1 \<le> d \<and> d \<le> daysIn m y
               then Some (days_from_civil y m d * 86400000) else None)
      else None)"

text \<open>
  \<open>time.Parse(time.RFC3339, s)\<close>, the layout \<open>2006-01-02T15:04:05Z07:00\<close>. The
  date is read as above. \<open>getnum\<close> reads the two digits of a field, or the one digit
  that the hour may have. A fraction of the second, after a point or a comma, is read
  though the layout has none. The zone is \<open>Z\<close> or a sign, two digits, a colon and two
  digits; its hours may be 24 and its minutes 60. Nothing may follow the zone.
\<close>

definition getnum :: "string \<Rightarrow> bool \<Rightarrow> (int \<times> string) option" where
  "getnum s fixed =
     (if s = [] \<or> \<not> isDigit (hd s) then None
      else if length s < 2 \<or> \<not> isDigit (s ! 1)
        then (if fixed then None else Some (digit_val (hd s), tl s))
      else Some (digit_val (hd s) * 10 + digit_val (s ! 1), drop 2 s))"

definition skip_char :: "string \<Rightarrow> char \<Rightarrow> string option" where
  "skip_char s c = (if s \<noteq> [] \<and> hd s = c then Some (tl s) else None)"

text \<open>The time of day, in seconds, and what follows it.\<close>

definition parse_clock :: "string \<Rightarrow> (int \<times> string) option" where
  "parse_clock s =
     (case getnum s False of
        None \<Rightarrow> None
      | Some (hour, s1) \<Rightarrow>
          if 24 \<le> hour then None
          else (case skip_char s1 CHR '':'' of
                  None \<Rightarrow> None
                | Some s2 \<Rightarrow>
                    (case getnum s2 True of
                       None \<Rightarrow> None
                     | Some (minute, s3) \<Rightarrow>
                         if 60 \<le> minute then None
                         else (case skip_char s3 CHR '':'' of
                                 None \<Rightarrow> None
                               | Some s4 \<Rightarrow>
                                   (case getnum s4 True of
                                      None \<Rightarrow> None
                                    | Some (sec, s5) \<Rightarrow>
                                        if 60 \<le> sec then None
                                        else Some (hour * 3600 + minute * 60 + sec, s5))))))"

text \<open>The fraction of the second, in milliseconds (the digits after the third are cut).\<close>

definition parse_fraction :: "string \<Rightarrow> int \<times> string" where
  "parse_fraction s =
     (if 2 \<le> length s \<and> (s ! 0 = CHR ''.'' \<or> s ! 0 = CHR '','') \<and> isDigit (s ! 1)
      then (let frac = takeWhile isDigit (drop 1 s)
            in (atoi (take 3 (frac @ ''000'')), drop (Suc (length frac)) s))
      else (0, s))"

text \<open>The offset of the zone, in seconds, when the zone ends the string.\<close>

definition parse_zone :: "string \<Rightarrow> int option" where
  "parse_zone s =
     (if s \<noteq> [] \<and> hd s = CHR ''Z'' then (if tl s = [] then Some 0 else None)
      else if length s < 6 \<or> s ! 3 \<noteq> CHR '':'' then None
      else (case (getnum (take 2 (drop 1 s)) True, getnum (take 2 (drop 4 s)) True) of
              (Some (hr, r1), Some (mm, r2)) \<Rightarrow>
                if 24 < hr \<or> 60 < mm \<or> (s ! 0 \<noteq> CHR ''+'' \<and> s ! 0 \<noteq> CHR ''-'')
                   \<or> drop 6 s \<noteq> []
                then None
                else Some ((if s ! 0 = CHR ''-'' then - 1 else 1) * ((hr * 60 + mm) * 60))
            | _ \<Rightarrow> None))"

definition parse_rfc3339 :: "string \<Rightarrow> int option" where
  "parse_rfc3339 s =
     (case parse_date (take 10 s) of
        None \<Rightarrow> None
      | Some day \<Rightarrow>
          (case skip_char (drop 10 s) CHR ''T'' of
             None \<Rightarrow> None
           | Some s1 \<Rightarrow>
               (case parse_clock s1 of
                  None \<Rightarrow> None
                | Some (secs, s2) \<Rightarrow>
                    (case parse_fraction s2 of
                       (millis, s3) \<Rightarrow>
                         (case parse_zone s3 of
                            None \<Rightarrow> None
                          | Some off \<Rightarrow> Some (day + (secs - off) * 1000 + millis))))))"

definition IsAllDigits :: "string \<Rightarrow> bool" where
  "IsAllDigits s = (list_all (\<lambda>c. \<not> (of_char c < (48::int) \<or> of_char c > (57::int))) s \<and> 0 < length s)"

definition ParseTimestamp :: "string \<Rightarrow> string" where
  "ParseTimestamp input0 =
     (let input = TrimSpace input0
      in if 10 \<le> length input \<and> IsAllDigits input then input
         else (case parse_date input of
                 Some ms \<Rightarrow> fmt_d ms
               | None \<Rightarrow> (case parse_rfc3339 input of
                            Some ms \<Rightarrow> fmt_d ms
                          | None \<Rightarrow> input)))"

definition fmt_year :: "int \<Rightarrow> string" where
  "fmt_year y = (if y < 0 then CHR ''-'' # pad0 4 (digits 10 (- y))
                 else pad0 4 (digits 10 y))"

text \<open>
  \<open>time.UnixMilli(ms)\<close> is a time in the local zone of the process, and
  \<open>Format("2006-01-02")\<close> prints its date there.
\<close>

definition format_date :: "location \<Rightarrow> int \<Rightarrow> string" where
  "format_date loc ms =
     (let sec = ms div 1000;
          day = (sec + loc sec) div 86400
      in (case civil_from_days day of (y, m, d) \<Rightarrow>
            fmt_year y @ ''-'' @ pad0 2 (digits 10 m) @ ''-'' @ pad0 2 (digits 10 d)))"

definition FormatTimestamp :: "location \<Rightarrow> string \<Rightarrow> string" where
  "FormatTimestamp loc timestamp0 =
     (let timestamp = TrimSpace timestamp0
      in (case scan_d timestamp of
            Some ms \<Rightarrow> format_date loc ms
          | None \<Rightarrow> timestamp))"

subsection \<open>Indentation, status attributes, white space\<close>

fun count_indent :: "string \<Rightarrow> nat" where
  "count_indent [] = 0"
| "count_indent (c # cs) =
     (if c = CHR '' '' then 1 + count_indent cs
      else if c = TAB then 2 + count_indent cs
      else 0)"

definition GetIndentLevel :: "string \<Rightarrow> nat" where
  "GetIndentLevel line = count_indent line div 2"

definition SplitStatusAttrs :: "string \<Rightarrow> (string \<times> string) list" where
  "SplitStatusAttrs attrStr =
     (if attrStr = [] then []
      else foldl (\<lambda>result pair.
                    (let parts = SplitN pair CHR ''='' 2
                     in if length parts = 2
                        then AList.update (TrimSpace (parts ! 0)) (TrimSpace (parts ! 1)) result
                        else result))
                 [] (Split attrStr CHR '',''))"

definition NewlinesRe :: rx where
  "NewlinesRe = Cat [Chr NL, Chr NL, Chr NL, Star (Chr NL)]"

definition NormalizeWhitespace :: "string \<Rightarrow> string" where
  "NormalizeWhitespace text0 =
     (let text = ReplaceAllString NewlinesRe text0 [NL, NL];
          lines = map (\<lambda>line. TrimRight line [CHR '' '', TAB]) (Split text NL)
      in TrimSpace (Join lines [NL]))"


section \<open>The inline parser (from_md.go)\<close>

definition text_node :: "string \<Rightarrow> val" where
  "text_node t = VMap [(''type'', VStr ''text''), (''text'', VStr t)]"

definition marked_text :: "string \<Rightarrow> val \<Rightarrow> val" where
  "marked_text t mark =
     VMap [(''type'', VStr ''text''), (''text'', VStr t), (''marks'', VList [mark])]"

definition simple_mark :: "string \<Rightarrow> val" where
  "simple_mark ty = VMap [(''type'', VStr ty)]"

text \<open>
  A pattern pairs an expression with the handler that builds the node from the
  submatches. A handler may draw a local identifier, so it takes and returns the count
  of identifiers drawn.
\<close>

type_synonym handler = "string list \<Rightarrow> entropy \<Rightarrow> nat \<Rightarrow> val \<times> nat"
type_synonym pattern = "string \<times> rx \<times> handler"

definition pat_re :: "pattern \<Rightarrow> rx" where "pat_re p = fst (snd p)"
definition pat_handler :: "pattern \<Rightarrow> handler" where "pat_handler p = snd (snd p)"

definition mentionH :: handler where
  "mentionH m src n =
     (VMap [(''type'', VStr ''mention''),
            (''attrs'', VMap [(''id'', VStr (m ! 1)), (''text'', VStr (''@'' @ m ! 1))])], n)"

definition dateH :: handler where
  "dateH m src n =
     (VMap [(''type'', VStr ''date''),
            (''attrs'', VMap [(''timestamp'', VStr (ParseTimestamp (m ! 1)))])], n)"

definition statusH :: handler where
  "statusH m src n =
     (case GenerateLocalID src n of (lid, n') \<Rightarrow>
        (let attrs = [(''text'', VStr (m ! 1)), (''localId'', VStr lid)];
             color = (if m ! 2 \<noteq> [] then lookup (SplitStatusAttrs (m ! 2)) ''color'' else []);
             attrs = (if color \<noteq> [] then attrs @ [(''color'', VStr color)] else attrs)
         in (VMap [(''type'', VStr ''status''), (''attrs'', VMap attrs)], n')))"

definition cardH :: handler where
  "cardH m src n =
     (VMap [(''type'', VStr ''inlineCard''), (''attrs'', VMap [(''url'', VStr (m ! 1))])], n)"

definition emojiH :: handler where
  "emojiH m src n =
     (VMap [(''type'', VStr ''emoji''),
            (''attrs'', VMap [(''shortName'', VStr ('':'' @ m ! 1 @ '':''))])], n)"

definition legacyMentionH :: handler where
  "legacyMentionH m src n =
     (VMap [(''type'', VStr ''mention''),
            (''attrs'', VMap [(''id'', VStr (m ! 2)), (''text'', VStr (''@'' @ m ! 1))])], n)"

definition linkH :: handler where
  "linkH m src n =
     (let attrs = [(''href'', VStr (m ! 2))];
          attrs = (if m ! 3 \<noteq> [] then attrs @ [(''title'', VStr (m ! 3))] else attrs)
      in (marked_text (m ! 1) (VMap [(''type'', VStr ''link''), (''attrs'', VMap attrs)]), n))"

definition boldH :: handler where
  "boldH m src n =
     (let t = m ! 1; t = (if t = [] then m ! 2 else t)
      in (marked_text t (simple_mark ''strong''), n))"

definition italicH :: handler where
  "italicH m src n =
     (let t = m ! 1; t = (if t = [] then m ! 2 else t)
      in (marked_text t (simple_mark ''em''), n))"

definition strikeH :: handler where
  "strikeH m src n = (marked_text (m ! 1) (simple_mark ''strike''), n)"

definition codeH :: handler where
  "codeH m src n = (marked_text (m ! 1) (simple_mark ''code''), n)"

definition textColorH :: handler where
  "textColorH m src n =
     (marked_text (m ! 2)
        (VMap [(''type'', VStr ''textColor''), (''attrs'', VMap [(''color'', VStr (m ! 1))])]), n)"

definition underlineH :: handler where
  "underlineH m src n = (marked_text (m ! 1) (simple_mark ''underline''), n)"

definition subsupH :: "string \<Rightarrow> handler" where
  "subsupH ty m src n =
     (marked_text (m ! 1)
        (VMap [(''type'', VStr ''subsup''), (''attrs'', VMap [(''type'', VStr ty)])]), n)"

definition legacyMentionRe :: rx where
  "legacyMentionRe = Cat [Str ''@['', Grp 1 (Plus (NotIn '']'')), Str ''](accountId:'',
                          Grp 2 (Plus (NotIn '')'')), Chr CHR '')'']"

definition linkRe :: rx where
  "linkRe = Cat [Chr CHR ''['', Grp 1 (Plus (NotIn '']'')), Str '']('',
                 Grp 2 (Plus (NotIn [CHR '')'', TAB, NL, CHR 0x0C, CHR 0x0D, CHR '' ''])),
                 Opt (Cat [Plus reSpace, Chr DQ, Grp 3 (Plus (NotIn [DQ])), Chr DQ]),
                 Chr CHR '')'']"

definition boldRe :: rx where
  "boldRe = Alt (Cat [Str ''**'', Grp 1 (Plus (NotIn ''*'')), Str ''**''])
                (Cat [Str ''__'', Grp 2 (Plus (NotIn ''_'')), Str ''__''])"

definition italicRe :: rx where
  "italicRe = Alt (Cat [Chr CHR ''*'', Grp 1 (Plus (NotIn ''*'')), Chr CHR ''*''])
                  (Cat [Chr CHR ''_'', Grp 2 (Plus (NotIn ''_'')), Chr CHR ''_''])"

definition strikeRe :: rx where
  "strikeRe = Cat [Str ''~~'', Grp 1 (Plus (NotIn ''~'')), Str ''~~'']"

definition codeRe :: rx where
  "codeRe = Cat [Chr BQ, Grp 1 (Plus (NotIn [BQ])), Chr BQ]"

definition underlineRe :: rx where
  "underlineRe = Cat [Str ''<u>'', Grp 1 (Plus (NotIn ''<'')), Str ''</u>'']"

definition subscriptRe :: rx where
  "subscriptRe = Cat [Str ''<sub>'', Grp 1 (Plus (NotIn ''<'')), Str ''</sub>'']"

definition superscriptRe :: rx where
  "superscriptRe = Cat [Str ''<sup>'', Grp 1 (Plus (NotIn ''<'')), Str ''</sup>'']"

definition patterns :: "pattern list" where
  "patterns =
     [(''mention'', ExtMentionRe, mentionH),
      (''date'', ExtDateRe, dateH),
      (''status'', ExtStatusRe, statusH),
      (''card'', ExtCardRe, cardH),
      (''emoji'', EmojiCodeRe, emojiH),
      (''legacyMention'', legacyMentionRe, legacyMentionH),
      (''link'', linkRe, linkH),
      (''bold'', boldRe, boldH),
      (''italic'', italicRe, italicH),
      (''strike'', strikeRe, strikeH),
      (''code'', codeRe, codeH),
      (''textColor'', ExtColorRe, textColorH),
      (''underline'', underlineRe, underlineH),
      (''subscript'', subscriptRe, subsupH ''sub''),
      (''superscript'', superscriptRe, subsupH ''sup'')]"

text \<open>
  The scan over the patterns: \<open>best\<close> is \<open>None\<close> while \<open>earliestMatch\<close> is \<open>-1\<close>,
  else the index of the pattern and the location of its match.
\<close>

fun scan_patterns ::
  "pattern list \<Rightarrow> nat \<Rightarrow> string \<Rightarrow> (nat \<times> nat \<times> nat) option \<Rightarrow> (nat \<times> nat \<times> nat) option" where
  "scan_patterns [] k remaining best = best"
| "scan_patterns (p # ps) k remaining best =
     scan_patterns ps (Suc k) remaining
       (case FindStringIndex (pat_re p) remaining of
          None \<Rightarrow> best
        | Some (a, e) \<Rightarrow>
            (case best of
               None \<Rightarrow> Some (k, a, e)
             | Some (j, a', e') \<Rightarrow> if a < a' then Some (k, a, e) else best))"

definition earliest :: "pattern list \<Rightarrow> string \<Rightarrow> (nat \<times> nat \<times> nat) option" where
  "earliest ps remaining = scan_patterns ps 0 remaining None"


lemma patterns_consume: "list_all (\<lambda>p. consumes (pat_re p)) patterns"
  by code_simp

lemma scan_patterns_best:
  "scan_patterns ps k remaining best = Some (j, a, e) \<Longrightarrow>
     best = Some (j, a, e) \<or>
     (\<exists>p \<in> set ps. FindStringIndex (pat_re p) remaining = Some (a, e))"
proof (induction ps arbitrary: k best)
  case Nil
  then show ?case by simp
next
  case (Cons p ps)
  define best' where "best' =
       (case FindStringIndex (pat_re p) remaining of
          None \<Rightarrow> best
        | Some (a, e) \<Rightarrow>
            (case best of
               None \<Rightarrow> Some (k, a, e)
             | Some (j, a', e') \<Rightarrow> if a < a' then Some (k, a, e) else best))"
  from Cons.prems have "scan_patterns ps (Suc k) remaining best' = Some (j, a, e)"
    by (simp add: best'_def)
  from Cons.IH[OF this]
  have "best' = Some (j, a, e) \<or>
        (\<exists>p \<in> set ps. FindStringIndex (pat_re p) remaining = Some (a, e))" .
  moreover have "best' = Some (j, a, e) \<Longrightarrow>
      best = Some (j, a, e) \<or> FindStringIndex (pat_re p) remaining = Some (a, e)"
    unfolding best'_def by (auto split: option.splits if_splits prod.splits)
  ultimately show ?case by auto
qed

lemma earliest_match_nonempty:
  assumes "earliest patterns remaining = Some (j, a, e)"
  shows "a < e \<and> e \<le> length remaining"
proof -
  from assms scan_patterns_best[of patterns 0 remaining None j a e]
  obtain p where p: "p \<in> set patterns"
    and f: "FindStringIndex (pat_re p) remaining = Some (a, e)"
    by (auto simp: earliest_def)
  from f obtain cs where fa: "find_at (pat_re p) True 0 remaining = Some (a, e, cs)"
    by (auto simp: FindStringIndex_def)
  from p patterns_consume have "consumes (pat_re p)" by (simp add: list_all_iff)
  from find_at_consumes[OF this fa] find_at_bounds[OF fa] show ?thesis by simp
qed

text \<open>
  The loop of \<open>parseInlineContent\<close>. The handler is given the submatches of the
  pattern on the matched text alone, as the source computes them; were that match to
  fail the handler would index a nil slice, which the model marks with \<open>VNil\<close>.
\<close>

function parseInline_loop :: "entropy \<Rightarrow> string \<Rightarrow> val list \<Rightarrow> nat \<Rightarrow> val list \<times> nat" where
  "parseInline_loop src remaining result n =
     (if remaining = [] then (result, n)
      else (case earliest patterns remaining of
              None \<Rightarrow> (result @ [text_node remaining], n)
            | Some (k, a, e) \<Rightarrow>
                (let result1 = (if 0 < a then result @ [text_node (take a remaining)] else result);
                     matchStr = take (e - a) (drop a remaining);
                     p = patterns ! k
                 in (case FindStringSubmatch (pat_re p) matchStr of
                       None \<Rightarrow> (result1 @ [VNil], n)
                     | Some sub \<Rightarrow>
                         (case pat_handler p sub src n of (node, n') \<Rightarrow>
                            parseInline_loop src (drop e remaining) (result1 @ [node]) n')))))"
  by pat_completeness auto
termination
proof (relation "measure (\<lambda>(src, remaining, result, n). length remaining)")
  show "wf (measure (\<lambda>(src, remaining, result, n). length remaining))" by simp
next
  fix src :: entropy and remaining :: string and result :: "val list" and n :: nat
    and x2 :: "nat \<times> nat \<times> nat" and k :: nat and y :: "nat \<times> nat" and a e :: nat
    and xa xb xc x2a xd ye
  assume "remaining \<noteq> []" and "earliest patterns remaining = Some x2"
    and "(k, y) = x2" and "(a, e) = y"
  then have "earliest patterns remaining = Some (k, a, e)" by simp
  from earliest_match_nonempty[OF this] have "0 < e" "e \<le> length remaining" by simp_all
  with \<open>remaining \<noteq> []\<close>
  show "((src, drop e remaining, xb @ [xd], ye), src, remaining, result, n)
          \<in> measure (\<lambda>(src, remaining, result, n). length remaining)"
    by simp
qed

declare parseInline_loop.simps [simp del]

definition parseInlineContent :: "entropy \<Rightarrow> string \<Rightarrow> nat \<Rightarrow> val list \<times> nat" where
  "parseInlineContent src text n =
     (if text = [] then ([], n)
      else (case parseInline_loop src text [] n of (result, n') \<Rightarrow>
              if length result = 0 then ([text_node text], n') else (result, n')))"


section \<open>The renderer (to_md.go)\<close>

subsection \<open>Inline nodes\<close>

record marks_seen =
  hasCode :: bool
  hasLink :: bool
  hasEm :: bool
  hasStrong :: bool
  hasStrike :: bool
  hasUnderline :: bool
  hasSubsup :: bool
  linkHref :: string
  linkTitle :: string
  textColor :: string
  bgColor :: string
  subType :: string

definition no_marks :: marks_seen where
  "no_marks = \<lparr>hasCode = False, hasLink = False, hasEm = False, hasStrong = False,
               hasStrike = False, hasUnderline = False, hasSubsup = False,
               linkHref = [], linkTitle = [], textColor = [], bgColor = [], subType = []\<rparr>"

text \<open>The first pass of \<open>applyMarks\<close>: one step of the loop over the marks.\<close>

definition see_mark :: "marks_seen \<Rightarrow> val \<Rightarrow> marks_seen" where
  "see_mark st mark =
     (case mark of
        VMap markMap \<Rightarrow>
          (let markType = as_string (map_of markMap ''type'');
               attrs = (case as_map (map_of markMap ''attrs'') of Some a \<Rightarrow> a | None \<Rightarrow> [])
           in if markType = ''code'' then st\<lparr>hasCode := True\<rparr>
              else if markType = ''link''
                then st\<lparr>hasLink := True, linkHref := as_string (map_of attrs ''href''),
                        linkTitle := as_string (map_of attrs ''title'')\<rparr>
              else if markType = ''em'' then st\<lparr>hasEm := True\<rparr>
              else if markType = ''strong'' then st\<lparr>hasStrong := True\<rparr>
              else if markType = ''strike'' then st\<lparr>hasStrike := True\<rparr>
              else if markType = ''underline'' then st\<lparr>hasUnderline := True\<rparr>
              else if markType = ''textColor''
                then st\<lparr>textColor := as_string (map_of attrs ''color'')\<rparr>
              else if markType = ''backgroundColor''
                then st\<lparr>bgColor := as_string (map_of attrs ''color'')\<rparr>
              else if markType = ''subsup''
                then st\<lparr>hasSubsup := True, subType := as_string (map_of attrs ''type'')\<rparr>
              else st)
      | _ \<Rightarrow> st)"

text \<open>The second pass: the wrappers, innermost first.\<close>

definition wrap_marks :: "marks_seen \<Rightarrow> string \<Rightarrow> string" where
  "wrap_marks st text =
     (let result = text;
          result = (if hasCode st then [BQ] @ result @ [BQ] else result);
          result = (if hasLink st
                    then (if linkTitle st \<noteq> []
                          then ''['' @ result @ ''](''  @ linkHref st @ '' '' @ [DQ] @ linkTitle st @ [DQ] @ '')''
                          else ''['' @ result @ ''](''  @ linkHref st @ '')'')
                    else result);
          result = (if hasEm st then ''*'' @ result @ ''*'' else result);
          result = (if hasStrong st then ''**'' @ result @ ''**'' else result);
          result = (if hasStrike st then ''~~'' @ result @ ''~~'' else result);
          result = (if hasUnderline st then ''<u>'' @ result @ ''</u>'' else result);
          result = (if textColor st \<noteq> []
                    then ''{color:'' @ textColor st @ ''}'' @ result @ ''{color}'' else result);
          result = (if bgColor st \<noteq> []
                    then ''<mark style='' @ [DQ] @ ''background:'' @ bgColor st @ [DQ] @ ''>''
                         @ result @ ''</mark>''
                    else result);
          result = (if hasSubsup st
                    then (if subType st = ''sub'' then ''<sub>'' @ result @ ''</sub>''
                          else if subType st = ''sup'' then ''<sup>'' @ result @ ''</sup>''
                          else result)
                    else result)
      in result)"

definition applyMarks :: "string \<Rightarrow> val list \<Rightarrow> string" where
  "applyMarks text marks = wrap_marks (foldl see_mark no_marks marks) text"

definition renderText :: "node \<Rightarrow> string" where
  "renderText node =
     (let text = as_string (map_of node ''text'')
      in if text = [] then []
         else (case as_list (map_of node ''marks'') of
                 None \<Rightarrow> text
               | Some marks \<Rightarrow> if length marks = 0 then text else applyMarks text marks))"

definition renderMedia :: "node \<Rightarrow> string" where
  "renderMedia node =
     (case as_map (map_of node ''attrs'') of
        None \<Rightarrow> ''[attachment]''
      | Some attrs \<Rightarrow>
          (let ident = as_string (map_of attrs ''id'');
               collection = as_string (map_of attrs ''collection'');
               mediaType = as_string (map_of attrs ''type'');
               alt = as_string (map_of attrs ''alt'');
               alt = (if alt = [] then ''attachment'' else alt)
           in if ident \<noteq> []
              then ''!['' @ alt @ ''](jira-media:'' @ ident @ '':'' @ collection @ '':'' @ mediaType @ '')''
              else ''['' @ alt @ '']''))"

definition renderEmoji :: "node \<Rightarrow> string" where
  "renderEmoji node =
     (case as_map (map_of node ''attrs'') of
        None \<Rightarrow> []
      | Some attrs \<Rightarrow>
          (let shortName = as_string (map_of attrs ''shortName'');
               text = as_string (map_of attrs ''text'')
           in if shortName \<noteq> []
              then (if HasPrefix shortName '':'' \<and> HasSuffix shortName '':'' then shortName
                    else '':'' @ shortName @ '':'')
              else if text \<noteq> [] then text
              else []))"

definition renderMention :: "node \<Rightarrow> string" where
  "renderMention node =
     (case as_map (map_of node ''attrs'') of
        None \<Rightarrow> ''@unknown''
      | Some attrs \<Rightarrow>
          (let ident = as_string (map_of attrs ''id'');
               text = as_string (map_of attrs ''text'');
               displayName = TrimPrefix text ''@'';
               displayName = (if displayName = [] then ident else displayName)
           in if ident \<noteq> [] then ''@['' @ displayName @ ''](accountId:'' @ ident @ '')''
              else if text \<noteq> [] then text
              else ''@unknown''))"

definition renderStatus :: "node \<Rightarrow> string" where
  "renderStatus node =
     (case as_map (map_of node ''attrs'') of
        None \<Rightarrow> []
      | Some attrs \<Rightarrow>
          (let text = as_string (map_of attrs ''text'');
               color = as_string (map_of attrs ''color'')
           in if text = [] then []
              else if color \<noteq> [] then ''{status:'' @ text @ ''|color='' @ color @ ''}''
              else ''{status:'' @ text @ ''}''))"

definition renderDate :: "location \<Rightarrow> node \<Rightarrow> string" where
  "renderDate loc node =
     (case as_map (map_of node ''attrs'') of
        None \<Rightarrow> []
      | Some attrs \<Rightarrow>
          (let timestamp = as_string (map_of attrs ''timestamp'')
           in if timestamp = [] then []
              else ''{date:'' @ FormatTimestamp loc timestamp @ ''}''))"

definition renderInlineCard :: "node \<Rightarrow> string" where
  "renderInlineCard node =
     (case as_map (map_of node ''attrs'') of
        None \<Rightarrow> []
      | Some attrs \<Rightarrow>
          (case map_of attrs ''url'' of
             Some (VStr url) \<Rightarrow> ''{card:'' @ url @ ''}''
           | _ \<Rightarrow> []))"

subsection \<open>Block nodes, given the rendering of their content\<close>

text \<open>
  Each function below is the body of the function of the same name in the source,
  after its call of \<open>renderContent(node)\<close> or \<open>renderBlockContent(node)\<close>, whose
  result is the first argument.
\<close>

definition renderParagraph_body :: "string \<Rightarrow> node \<Rightarrow> string" where
  "renderParagraph_body text node =
     (case as_map (map_of node ''attrs'') of
        Some attrs \<Rightarrow>
          (if 0 < length attrs
           then (let attrStr = FormatAttrsForFence attrs [''textAlign'']
                 in if attrStr \<noteq> [] then ''<!-- adf:paragraph'' @ attrStr @ '' -->'' @ [NL] @ text
                    else text)
           else text)
      | None \<Rightarrow> text)"

definition heading_level :: "node \<Rightarrow> int" where
  "heading_level node =
     (let level = (case as_map (map_of node ''attrs'') of
                     Some attrs \<Rightarrow> (case as_float (map_of attrs ''level'') of
                                      Some l \<Rightarrow> int_of_float l | None \<Rightarrow> 1)
                   | None \<Rightarrow> 1)
      in if level < 1 then 1 else if 6 < level then 6 else level)"

definition renderHeading_body :: "string \<Rightarrow> node \<Rightarrow> string" where
  "renderHeading_body text node =
     (let prefix = Repeat ''#'' (nat (heading_level node));
          plain = prefix @ '' '' @ text
      in (case as_map (map_of node ''attrs'') of
            Some attrs \<Rightarrow>
              (let customAttrs = filter (\<lambda>(k, v). k \<noteq> ''level'') attrs
               in if 0 < length customAttrs
                  then (let attrStr = FormatAttrsForFence customAttrs [''id'', ''textAlign'']
                        in if attrStr \<noteq> []
                           then ''<!-- adf:heading'' @ attrStr @ '' -->'' @ [NL] @ prefix @ '' '' @ text
                           else plain)
                  else plain)
          | None \<Rightarrow> plain))"

definition task_checkbox :: "node \<Rightarrow> string" where
  "task_checkbox node =
     (let state = (case as_map (map_of node ''attrs'') of
                     Some attrs \<Rightarrow> (case map_of attrs ''state'' of
                                      Some (VStr s) \<Rightarrow> s | _ \<Rightarrow> ''TODO'')
                   | None \<Rightarrow> ''TODO'')
      in if state = ''DONE'' then ''[x]'' else ''[ ]'')"

definition renderTaskItem_body :: "string \<Rightarrow> node \<Rightarrow> string" where
  "renderTaskItem_body content node = task_checkbox node @ '' '' @ content"

definition renderCodeBlock_body :: "string \<Rightarrow> node \<Rightarrow> string" where
  "renderCodeBlock_body content node =
     (let lang = (case as_map (map_of node ''attrs'') of
                    Some attrs \<Rightarrow> as_string (map_of attrs ''language'') | None \<Rightarrow> [])
      in [BQ, BQ, BQ] @ lang @ [NL] @ content @ [NL] @ [BQ, BQ, BQ])"

definition renderBlockquote_body :: "string \<Rightarrow> string" where
  "renderBlockquote_body content =
     Join (map (\<lambda>line. ''> '' @ line) (Split (TrimRight content [NL]) NL)) [NL]"

definition renderPanel_body :: "string \<Rightarrow> node \<Rightarrow> string" where
  "renderPanel_body blocks node =
     (let panelType = (case as_map (map_of node ''attrs'') of
                         Some attrs \<Rightarrow> (case map_of attrs ''panelType'' of
                                          Some (VStr pt) \<Rightarrow> pt | _ \<Rightarrow> ''info'')
                       | None \<Rightarrow> ''info'')
      in ''~~~panel type='' @ panelType @ [NL] @ TrimSpace blocks @ [NL] @ ''~~~'')"

definition renderExpand_body :: "string \<Rightarrow> node \<Rightarrow> string" where
  "renderExpand_body blocks node =
     (let title = (case as_map (map_of node ''attrs'') of
                     Some attrs \<Rightarrow> as_string (map_of attrs ''title'') | None \<Rightarrow> [])
      in if title \<noteq> []
         then ''~~~expand title='' @ [DQ] @ title @ [DQ] @ [NL] @ TrimSpace blocks @ [NL] @ ''~~~''
         else ''~~~expand'' @ [NL] @ TrimSpace blocks @ [NL] @ ''~~~'')"

definition renderMediaSingle_body :: "string \<Rightarrow> node \<Rightarrow> string" where
  "renderMediaSingle_body mediaContent node =
     (let attrs = as_map (map_of node ''attrs'');
          layout = (case attrs of Some a \<Rightarrow> as_string (map_of a ''layout'') | None \<Rightarrow> []);
          width = (case attrs of
                     Some a \<Rightarrow> (case as_float (map_of a ''width'') of
                                  Some w \<Rightarrow> fmt_f0 w | None \<Rightarrow> [])
                   | None \<Rightarrow> []);
          widthType = (case attrs of Some a \<Rightarrow> as_string (map_of a ''widthType'') | None \<Rightarrow> []);
          attrParts = (if layout \<noteq> [] then [''layout='' @ layout] else []) @
                      (if width \<noteq> []
                       then [''width='' @ width] @
                            (if widthType \<noteq> [] then [''widthType='' @ widthType] else [])
                       else []);
          attrStr = (if 0 < length attrParts then '' '' @ Join attrParts '' '' else [])
      in ''~~~mediaSingle'' @ attrStr @ [NL] @ TrimSpace mediaContent @ [NL] @ ''~~~'')"

definition renderMediaGroup_body :: "string \<Rightarrow> string" where
  "renderMediaGroup_body mediaContent =
     ''~~~mediaGroup'' @ [NL] @ TrimSpace mediaContent @ [NL] @ ''~~~''"

text \<open>
  The layout of a table, from the text of the cells of each row and whether the row
  holds a header cell.
\<close>

definition table_line :: "string list \<Rightarrow> string" where
  "table_line row = ''| '' @ Join row '' | '' @ '' |''"

definition pad_row :: "nat \<Rightarrow> string list \<Rightarrow> string list" where
  "pad_row colCount row = row @ replicate (colCount - length row) []"

definition table_layout :: "(string list \<times> bool) list \<Rightarrow> string" where
  "table_layout rows =
     (if length rows = 0 then []
      else
       (let colCount = foldl (\<lambda>m (row, h). if m < length row then length row else m) 0 rows;
            sb = concat (map (\<lambda>(row0, isHeader).
                                (let row = pad_row colCount row0
                                 in table_line row @ [NL] @
                                    (if isHeader
                                     then table_line (map (\<lambda>_. ''---'') row) @ [NL]
                                     else []))) rows);
            sb = (if \<not> snd (rows ! 0)
                  then (let lines = Split (TrimRight sb [NL]) NL;
                            separator = table_line (replicate colCount ''---'')
                        in if 0 < length lines
                           then lines ! 0 @ [NL] @ separator @ [NL] @
                                concat (map (\<lambda>line. line @ [NL]) (tl lines))
                           else sb)
                  else sb)
        in TrimRight sb [NL]))"

definition cell_text :: "string \<Rightarrow> string" where
  "cell_text rendered =
     ReplaceAll (ReplaceAll (TrimSpace rendered) NL '' '') CHR ''|'' [BSL, CHR ''|'']"

subsection \<open>The tree walk\<close>

definition nsize :: "node \<Rightarrow> nat" where
  "nsize m = size (VMap m)"

lemma size_map_of:
  "map_of m k = Some v \<Longrightarrow> size v < size (VMap m)"
  by (induction m) (auto split: if_splits)

lemma child_smaller:
  assumes "as_list (map_of m k) = Some xs" and "VMap cm \<in> set xs"
  shows "nsize cm < nsize m"
proof -
  from assms(1) have "map_of m k = Some (VList xs)"
    by (auto simp: as_list_def split: option.splits val.splits)
  then have "size (VList xs) < size (VMap m)" by (rule size_map_of)
  moreover from assms(2) have "size (VMap cm) < size (VList xs)"
    by (induction xs) auto
  ultimately show ?thesis by (simp add: nsize_def)
qed

lemma child_smaller_nth:
  assumes "as_list (map_of m k) = Some xs" and "i < length xs" and "xs ! i = VMap cm"
  shows "nsize cm < nsize m"
  using child_smaller[OF assms(1), of cm] assms(2,3) nth_mem[of i xs] by simp

lemma grandchild_smaller:
  assumes "as_list (map_of m k) = Some xs" and "VMap cm \<in> set xs"
    and "as_list (map_of cm k') = Some ys" and "VMap gm \<in> set ys"
  shows "nsize gm < nsize m"
  using child_smaller[OF assms(1,2)] child_smaller[OF assms(3,4)] by simp

function renderADFNode :: "location \<Rightarrow> node \<Rightarrow> nat \<Rightarrow> string"
  and renderContent :: "location \<Rightarrow> node \<Rightarrow> string"
  and renderBlockContent :: "location \<Rightarrow> node \<Rightarrow> string"
  and renderBulletList :: "location \<Rightarrow> node \<Rightarrow> nat \<Rightarrow> string"
  and renderOrderedList :: "location \<Rightarrow> node \<Rightarrow> nat \<Rightarrow> string"
  and renderTaskList :: "location \<Rightarrow> node \<Rightarrow> nat \<Rightarrow> string"
  and renderListItemContent :: "location \<Rightarrow> node \<Rightarrow> nat \<Rightarrow> string"
  and renderTable :: "location \<Rightarrow> node \<Rightarrow> string"
where
  "renderADFNode loc node depth =
     (let nodeType = as_string (map_of node ''type'')
      in if nodeType = ''paragraph'' then renderParagraph_body (renderContent loc node) node
         else if nodeType = ''text'' then renderText node
         else if nodeType = ''hardBreak'' then [CHR '' '', CHR '' '', NL]
         else if nodeType = ''heading'' then renderHeading_body (renderContent loc node) node
         else if nodeType = ''bulletList'' then renderBulletList loc node depth
         else if nodeType = ''orderedList'' then renderOrderedList loc node depth
         else if nodeType = ''taskList'' then renderTaskList loc node depth
         else if nodeType = ''listItem'' then renderListItemContent loc node depth
         else if nodeType = ''taskItem'' then renderTaskItem_body (renderContent loc node) node
         else if nodeType = ''codeBlock'' then renderCodeBlock_body (renderContent loc node) node
         else if nodeType = ''blockquote'' then renderBlockquote_body (renderContent loc node)
         else if nodeType = ''rule'' then ''---''
         else if nodeType = ''panel'' then renderPanel_body (renderBlockContent loc node) node
         else if nodeType = ''expand'' \<or> nodeType = ''nestedExpand''
           then renderExpand_body (renderBlockContent loc node) node
         else if nodeType = ''table'' then renderTable loc node
         else if nodeType = ''mediaSingle''
           then renderMediaSingle_body (renderContent loc node) node
         else if nodeType = ''mediaGroup'' then renderMediaGroup_body (renderContent loc node)
         else if nodeType = ''media'' then renderMedia node
         else if nodeType = ''emoji'' then renderEmoji node
         else if nodeType = ''mention'' then renderMention node
         else if nodeType = ''status'' then renderStatus node
         else if nodeType = ''date'' then renderDate loc node
         else if nodeType = ''inlineCard'' then renderInlineCard node
         else renderContent loc node)"
| "renderContent loc node =
     (case as_list (map_of node ''content'') of
        None \<Rightarrow> []
      | Some content \<Rightarrow>
          concat (map (\<lambda>child. case child of
                                  VMap childMap \<Rightarrow> renderADFNode loc childMap 0
                                | _ \<Rightarrow> []) content))"
| "renderBlockContent loc node =
     (case as_list (map_of node ''content'') of
        None \<Rightarrow> []
      | Some content \<Rightarrow>
          Join (filter (\<lambda>rendered. rendered \<noteq> [])
                  (concat (map (\<lambda>child. case child of
                                          VMap childMap \<Rightarrow> [renderADFNode loc childMap 0]
                                        | _ \<Rightarrow> []) content)))
               [NL, NL])"
| "renderBulletList loc node depth =
     (case as_list (map_of node ''content'') of
        None \<Rightarrow> []
      | Some content \<Rightarrow>
          Join (concat (map (\<lambda>item. case item of
                                       VMap itemMap \<Rightarrow>
                                         [Repeat ''  '' depth @ ''- '' @
                                          renderListItemContent loc itemMap depth]
                                     | _ \<Rightarrow> []) content))
               [NL])"
| "renderOrderedList loc node depth =
     (case as_list (map_of node ''content'') of
        None \<Rightarrow> []
      | Some content \<Rightarrow>
          (let startOrder = (case as_map (map_of node ''attrs'') of
                               Some attrs \<Rightarrow> (case as_float (map_of attrs ''order'') of
                                                Some order \<Rightarrow> int_of_float order | None \<Rightarrow> 1)
                             | None \<Rightarrow> 1)
           in Join (concat (map (\<lambda>(i, item). case item of
                                       VMap itemMap \<Rightarrow>
                                         [Repeat ''  '' depth @ fmt_d (wrap64 (startOrder + int i)) @ ''. '' @
                                          renderListItemContent loc itemMap depth]
                                     | _ \<Rightarrow> []) (enumerate 0 content)))
                   [NL]))"
| "renderTaskList loc node depth =
     (case as_list (map_of node ''content'') of
        None \<Rightarrow> []
      | Some content \<Rightarrow>
          Join (concat (map (\<lambda>item. case item of
                                       VMap itemMap \<Rightarrow>
                                         [Repeat ''  '' depth @ ''- '' @ task_checkbox itemMap @
                                          '' '' @ renderContent loc itemMap]
                                     | _ \<Rightarrow> []) content))
               [NL])"
| "renderListItemContent loc node depth =
     (case as_list (map_of node ''content'') of
        None \<Rightarrow> []
      | Some content \<Rightarrow>
          (let parts = concat (map (\<lambda>(i, child). case child of
                           VMap childMap \<Rightarrow>
                             (let childType = as_string (map_of childMap ''type'')
                              in if childType = ''paragraph''
                                 then (if i = 0 then [renderContent loc childMap]
                                       else [[NL] @ Repeat ''  '' (depth + 1) @
                                             renderContent loc childMap])
                                 else if childType = ''bulletList'' \<or> childType = ''orderedList''
                                         \<or> childType = ''taskList'' then []
                                 else [renderADFNode loc childMap (depth + 1)])
                         | _ \<Rightarrow> []) (enumerate 0 content));
               nestedLists = concat (map (\<lambda>child. case child of
                           VMap childMap \<Rightarrow>
                             (let childType = as_string (map_of childMap ''type'')
                              in if childType = ''bulletList''
                                 then [renderBulletList loc childMap (depth + 1)]
                                 else if childType = ''orderedList''
                                 then [renderOrderedList loc childMap (depth + 1)]
                                 else if childType = ''taskList''
                                 then [renderTaskList loc childMap (depth + 1)]
                                 else [])
                         | _ \<Rightarrow> []) content);
               result = Join parts [];
               result = (if 0 < length nestedLists
                         then result @ [NL] @ Join nestedLists [NL] else result)
           in TrimRight result [NL]))"
| "renderTable loc node =
     (case as_list (map_of node ''content'') of
        None \<Rightarrow> []
      | Some content \<Rightarrow>
          if length content = 0 then []
          else table_layout
                 (concat (map (\<lambda>row. case row of
                     VMap rowMap \<Rightarrow>
                       (case as_list (map_of rowMap ''content'') of
                          None \<Rightarrow> []
                        | Some rowContent \<Rightarrow>
                            [(concat (map (\<lambda>cell. case cell of
                                         VMap cellMap \<Rightarrow> [cell_text (renderContent loc cellMap)]
                                       | _ \<Rightarrow> []) rowContent),
                              list_ex (\<lambda>cell. case cell of
                                         VMap cellMap \<Rightarrow>
                                           as_string (map_of cellMap ''type'') = ''tableHeader''
                                       | _ \<Rightarrow> False) rowContent)])
                   | _ \<Rightarrow> []) content)))"
  by pat_completeness auto
termination
  apply (relation "measure (\<lambda>x. case x of
            Inl (Inl (Inl (loc, node, d))) \<Rightarrow> 2 * nsize node + 1
          | Inl (Inl (Inr (loc, node))) \<Rightarrow> 2 * nsize node
          | Inl (Inr (Inl (loc, node))) \<Rightarrow> 2 * nsize node
          | Inl (Inr (Inr (loc, node, d))) \<Rightarrow> 2 * nsize node
          | Inr (Inl (Inl (loc, node, d))) \<Rightarrow> 2 * nsize node
          | Inr (Inl (Inr (loc, node, d))) \<Rightarrow> 2 * nsize node
          | Inr (Inr (Inl (loc, node, d))) \<Rightarrow> 2 * nsize node
          | Inr (Inr (Inr (loc, node))) \<Rightarrow> 2 * nsize node)")
  apply (auto simp: in_set_enumerate_eq dest: child_smaller child_smaller_nth)
  apply (rule grandchild_smaller; assumption)
  done


declare renderADFNode.simps [simp del] renderContent.simps [simp del]
  renderBlockContent.simps [simp del] renderBulletList.simps [simp del]
  renderOrderedList.simps [simp del] renderTaskList.simps [simp del]
  renderListItemContent.simps [simp del] renderTable.simps [simp del]

definition renderADFDocument :: "location \<Rightarrow> node \<Rightarrow> string" where
  "renderADFDocument loc doc =
     (case as_list (map_of doc ''content'') of
        None \<Rightarrow> []
      | Some content \<Rightarrow>
          NormalizeWhitespace
            (Join (filter (\<lambda>rendered. rendered \<noteq> [])
                     (concat (map (\<lambda>n. case n of
                                          VMap nodeMap \<Rightarrow> [renderADFNode loc nodeMap 0]
                                        | _ \<Rightarrow> []) content)))
                  [NL, NL]))"

definition ToMarkdown :: "location \<Rightarrow> node \<Rightarrow> string" where
  "ToMarkdown loc doc = renderADFDocument loc doc"



section \<open>The block parser (from_md.go)\<close>

subsection \<open>Media\<close>

definition parseMediaFromImage :: "entropy \<Rightarrow> string \<Rightarrow> string \<Rightarrow> nat \<Rightarrow> val \<times> nat" where
  "parseMediaFromImage src alt source n =
     (let parts = (if HasPrefix source ''jira-media:''
                   then SplitN (TrimPrefix source ''jira-media:'') CHR '':'' 3 else [])
      in if HasPrefix source ''jira-media:'' \<and> 3 \<le> length parts
         then (VMap [(''type'', VStr ''media''),
                     (''attrs'', VMap [(''id'', VStr (parts ! 0)),
                                       (''collection'', VStr (parts ! 1)),
                                       (''type'', VStr (parts ! 2)),
                                       (''alt'', VStr alt)])], n)
         else (case GenerateLocalID src n of (lid, n') \<Rightarrow>
                 (VMap [(''type'', VStr ''media''),
                        (''attrs'', VMap [(''id'', VStr (''__PENDING_UPLOAD_'' @ lid @ ''__'')),
                                          (''type'', VStr ''file''),
                                          (''alt'', VStr alt),
                                          (''_source'', VStr source)])], n')))"

definition parseStandaloneImage :: "entropy \<Rightarrow> string \<Rightarrow> string \<Rightarrow> nat \<Rightarrow> val \<times> nat" where
  "parseStandaloneImage src alt source n =
     (case parseMediaFromImage src alt source n of (mediaNode, n') \<Rightarrow>
        (VMap [(''type'', VStr ''mediaSingle''),
               (''attrs'', VMap [(''layout'', VStr ''align-start'')]),
               (''content'', VList [mediaNode])], n'))"

definition imageRe :: rx where
  "imageRe = Cat [Str ''!['', Grp 1 (Star (NotIn '']'')), Str '']('', Grp 2 (Plus (NotIn '')'')),
                  Chr CHR '')'']"

definition standaloneImageRe :: rx where
  "standaloneImageRe = Cat [Bol, imageRe, Eol]"

definition parseMediaSingleBlock ::
  "entropy \<Rightarrow> (string \<times> string) list \<Rightarrow> string \<Rightarrow> nat \<Rightarrow> val \<times> nat" where
  "parseMediaSingleBlock src attrs content n =
     (let layout = lookup attrs ''layout'';
          layout = (if layout = [] then ''align-start'' else layout);
          width = lookup attrs ''width'';
          w = (if width \<noteq> [] then (case scan_f width of Some x \<Rightarrow> x | None \<Rightarrow> Finite 0)
               else Finite 0);
          positive = (case w of Finite r \<Rightarrow> 0 < r | Special sp \<Rightarrow> sp = PosInf);
          widthType = lookup attrs ''widthType'';
          widthType = (if widthType = [] then ''pixel'' else widthType);
          nodeAttrs = [(''layout'', VStr layout)] @
                      (if width \<noteq> [] \<and> positive
                       then [(''width'', val_of_float w), (''widthType'', VStr widthType)] else [])
      in (case (case FindStringSubmatch imageRe content of
                  Some matches \<Rightarrow> parseMediaFromImage src (matches ! 1) (matches ! 2) n
                | None \<Rightarrow> (VMap [(''type'', VStr ''media''),
                                  (''attrs'', VMap [(''type'', VStr ''file'')])], n))
          of (mediaNode, n') \<Rightarrow>
            (VMap [(''type'', VStr ''mediaSingle''), (''attrs'', VMap nodeAttrs),
                   (''content'', VList [mediaNode])], n')))"

fun media_nodes :: "entropy \<Rightarrow> string list list \<Rightarrow> nat \<Rightarrow> val list \<times> nat" where
  "media_nodes src [] n = ([], n)"
| "media_nodes src (m # ms) n =
     (case parseMediaFromImage src (m ! 1) (m ! 2) n of (node, n') \<Rightarrow>
        (case media_nodes src ms n' of (nodes, n'') \<Rightarrow> (node # nodes, n'')))"

definition parseMediaGroupBlock :: "entropy \<Rightarrow> string \<Rightarrow> nat \<Rightarrow> val \<times> nat" where
  "parseMediaGroupBlock src content n =
     (case media_nodes src (FindAllStringSubmatch imageRe content) n of (mediaNodes, n') \<Rightarrow>
        (VMap [(''type'', VStr ''mediaGroup''), (''content'', VList mediaNodes)], n'))"

subsection \<open>Code blocks, headings, tables, task lists, paragraphs\<close>

function code_lines :: "string list \<Rightarrow> nat \<Rightarrow> string list \<Rightarrow> string list \<times> nat" where
  "code_lines lines i codeLines =
     (if i < length lines \<and> \<not> HasPrefix (lines ! i) [BQ, BQ, BQ]
      then code_lines lines (i + 1) (codeLines @ [lines ! i])
      else (codeLines, i))"
  by pat_completeness auto
termination
  by (relation "measure (\<lambda>(lines, i, codeLines). length lines - i)") auto

declare code_lines.simps [simp del]

definition parseCodeBlock :: "string list \<Rightarrow> nat \<Rightarrow> val \<times> nat" where
  "parseCodeBlock lines startIdx =
     (let lang = TrimSpace (TrimPrefix (lines ! startIdx) [BQ, BQ, BQ])
      in (case code_lines lines (startIdx + 1) [] of (codeLines, i) \<Rightarrow>
            (VMap [(''type'', VStr ''codeBlock''),
                   (''attrs'', VMap [(''language'', VStr lang)]),
                   (''content'', VList [text_node (Join codeLines [NL])])], i + 1)))"

definition heading_marks :: "string \<Rightarrow> nat" where
  "heading_marks line = length (takeWhile (\<lambda>c. c = CHR ''#'') line)"

definition parseHeading ::
  "entropy \<Rightarrow> string \<Rightarrow> (string \<times> string) list \<Rightarrow> nat \<Rightarrow> val option \<times> nat" where
  "parseHeading src line metadata n =
     (let level = heading_marks line
      in if level = 0 \<or> 6 < level \<or> length line \<le> level \<or> line ! level \<noteq> CHR '' ''
         then (None, n)
         else (let headingText = TrimSpace (drop (level + 1) line);
                   attrs = foldl (\<lambda>a (k, v). AList.update k (VStr v) a)
                                 [(''level'', VInt (int level))] metadata
               in (case parseInlineContent src headingText n of (content, n') \<Rightarrow>
                     (Some (VMap [(''type'', VStr ''heading''), (''attrs'', VMap attrs),
                                  (''content'', VList content)]), n'))))"

definition parseTableRow :: "string \<Rightarrow> string list" where
  "parseTableRow line = map TrimSpace (Split (Trim line ''|'') CHR ''|'')"

fun table_cells :: "entropy \<Rightarrow> string \<Rightarrow> string list \<Rightarrow> nat \<Rightarrow> val list \<times> nat" where
  "table_cells src cellType [] n = ([], n)"
| "table_cells src cellType (cell # cells) n =
     (case parseInlineContent src cell n of (content, n') \<Rightarrow>
        (case table_cells src cellType cells n' of (rest, n'') \<Rightarrow>
           (VMap [(''type'', VStr cellType), (''attrs'', VMap []),
                  (''content'', VList [VMap [(''type'', VStr ''paragraph''),
                                             (''content'', VList content)]])] # rest, n'')))"

function table_rows ::
  "entropy \<Rightarrow> string list \<Rightarrow> nat \<Rightarrow> val list \<Rightarrow> bool \<Rightarrow> nat \<Rightarrow> val list \<times> nat \<times> nat" where
  "table_rows src lines i tableRows isFirstRow n =
     (if i < length lines \<and> HasPrefix (lines ! i) ''|''
      then (let rowLine = TrimSpace (lines ! i)
            in if Contains rowLine ''---''
               then table_rows src lines (i + 1) tableRows isFirstRow n
               else (case table_cells src (if isFirstRow then ''tableHeader'' else ''tableCell'')
                            (parseTableRow rowLine) n of
                       (rowContent, n') \<Rightarrow>
                         table_rows src lines (i + 1)
                           (tableRows @ [VMap [(''type'', VStr ''tableRow''),
                                               (''content'', VList rowContent)]])
                           False n'))
      else (tableRows, i, n))"
  by pat_completeness auto
termination
  by (relation "measure (\<lambda>(src, lines, i, tableRows, isFirstRow, n). length lines - i)") auto

declare table_rows.simps [simp del]

definition parseTable :: "entropy \<Rightarrow> string list \<Rightarrow> nat \<Rightarrow> nat \<Rightarrow> val option \<times> nat \<times> nat" where
  "parseTable src lines startIdx n =
     (case table_rows src lines startIdx [] True n of (tableRows, i, n') \<Rightarrow>
        if length tableRows = 0 then (None, i, n')
        else (Some (VMap [(''type'', VStr ''table''),
                          (''attrs'', VMap [(''isNumberColumnEnabled'', VBool False),
                                            (''layout'', VStr ''default'')]),
                          (''content'', VList tableRows)]), i, n'))"

function task_items ::
  "entropy \<Rightarrow> string list \<Rightarrow> nat \<Rightarrow> val list \<Rightarrow> nat \<Rightarrow> val list \<times> nat \<times> nat" where
  "task_items src lines i items n =
     (if i < length lines
      then (case FindStringSubmatch TaskItemRe (lines ! i) of
              None \<Rightarrow> (items, i, n)
            | Some m \<Rightarrow>
                (let state = (if m ! 2 = ''x'' \<or> m ! 2 = ''X'' then ''DONE'' else ''TODO'')
                 in (case GenerateLocalID src n of (lid, n1) \<Rightarrow>
                       (case parseInlineContent src (m ! 3) n1 of (content, n2) \<Rightarrow>
                          task_items src lines (i + 1)
                            (items @ [VMap [(''type'', VStr ''taskItem''),
                                            (''attrs'', VMap [(''localId'', VStr lid),
                                                              (''state'', VStr state)]),
                                            (''content'', VList content)]])
                            n2))))
      else (items, i, n))"
  by pat_completeness auto
termination
  by (relation "measure (\<lambda>(src, lines, i, items, n). length lines - i)") auto

declare task_items.simps [simp del]

definition parseTaskList :: "entropy \<Rightarrow> string list \<Rightarrow> nat \<Rightarrow> nat \<Rightarrow> val \<times> nat \<times> nat" where
  "parseTaskList src lines startIdx n =
     (case task_items src lines startIdx [] n of (items, i, n1) \<Rightarrow>
        (case GenerateLocalID src n1 of (lid, n2) \<Rightarrow>
           (VMap [(''type'', VStr ''taskList''),
                  (''attrs'', VMap [(''localId'', VStr lid)]),
                  (''content'', VList items)], i, n2)))"

definition orderedStartRe :: rx where
  "orderedStartRe = Cat [Bol, Plus reDigit, Chr CHR ''.'', reSpace]"

definition starts_block :: "string \<Rightarrow> bool" where
  "starts_block line =
     (HasPrefix line ''#'' \<or> HasPrefix line [BQ, BQ, BQ] \<or> HasPrefix line ''~~~'' \<or>
      HasPrefix line ''> '' \<or> HasPrefix line ''- '' \<or> HasPrefix line ''* '' \<or>
      HasPrefix line ''+ '' \<or> HasPrefix line ''|'' \<or>
      line = ''---'' \<or> line = ''***'' \<or> line = ''___'')"

function para_lines :: "string list \<Rightarrow> nat \<Rightarrow> string list \<Rightarrow> string list \<times> nat" where
  "para_lines lines i paraLines =
     (if i < length lines
      then (let line = lines ! i
            in if TrimSpace line = [] then (paraLines, i + 1)
               else if starts_block line \<and> 0 < length paraLines then (paraLines, i)
               else if MatchString orderedStartRe line \<and> 0 < length paraLines then (paraLines, i)
               else if MatchString TaskItemRe line \<and> 0 < length paraLines then (paraLines, i)
               else para_lines lines (i + 1) (paraLines @ [line]))
      else (paraLines, i))"
  by pat_completeness auto
termination
  by (relation "measure (\<lambda>(lines, i, paraLines). length lines - i)") auto

declare para_lines.simps [simp del]

definition parseParagraph ::
  "entropy \<Rightarrow> string list \<Rightarrow> nat \<Rightarrow> (string \<times> string) list \<Rightarrow> nat \<Rightarrow> val option \<times> nat \<times> nat" where
  "parseParagraph src lines startIdx metadata n =
     (case para_lines lines startIdx [] of (paraLines, i) \<Rightarrow>
        if length paraLines = 0 then (None, i, n)
        else (case parseInlineContent src (Join paraLines [NL]) n of (content, n') \<Rightarrow>
                (Some (VMap ([(''type'', VStr ''paragraph''), (''content'', VList content)] @
                             (if 0 < length metadata
                              then [(''attrs'', VMap (map (\<lambda>(k, v). (k, VStr v)) metadata))]
                              else []))), i, n')))"

subsection \<open>Lists\<close>

text \<open>
  The list functions call one another, and a call may return the index it was given,
  so their loops are not bounded by the text. Each loop takes a budget of rounds (its
  first argument) and returns \<open>None\<close> when the budget is used up: a run that
  returns \<open>None\<close> for every budget does not return. One round of each loop is
  written with the functions it calls as parameters: \<open>item\<close> is
  \<open>parseListItem\<close>, \<open>bullets\<close> and \<open>ordered\<close> are \<open>parseBulletList\<close> and
  \<open>parseOrderedList\<close>, and \<open>loop\<close> is the rest of the loop.
\<close>

definition bullet_prefix :: "string \<Rightarrow> bool" where
  "bullet_prefix s = (HasPrefix s ''- '' \<or> HasPrefix s ''* '' \<or> HasPrefix s ''+ '')"

definition orderedRe :: rx where
  "orderedRe = Cat [Bol, Grp 1 (Plus reDigit), Chr CHR ''.'', Plus reSpace, Grp 2 (Star reDot), Eol]"

definition list_item_node :: "val list \<Rightarrow> val" where
  "list_item_node itemContent = VMap [(''type'', VStr ''listItem''), (''content'', VList itemContent)]"

definition item_text :: "string \<Rightarrow> string" where
  "item_text trimmedLine =
     (if bullet_prefix trimmedLine then TrimSpace (drop 2 trimmedLine)
      else (let idx = Index trimmedLine ''. ''
            in if 0 \<le> idx then TrimSpace (drop (nat idx + 2) trimmedLine) else []))"

type_synonym item_fn =
  "string list \<Rightarrow> nat \<Rightarrow> nat \<Rightarrow> nat \<Rightarrow> (val list \<times> nat \<times> nat) option"
type_synonym list_fn =
  "string list \<Rightarrow> nat \<Rightarrow> nat \<Rightarrow> nat \<Rightarrow> (val option \<times> nat \<times> nat) option"
type_synonym loop_fn =
  "string list \<Rightarrow> nat \<Rightarrow> nat \<Rightarrow> val list \<Rightarrow> nat \<Rightarrow> (val list \<times> nat \<times> nat) option"
type_synonym oloop_fn =
  "string list \<Rightarrow> nat \<Rightarrow> nat \<Rightarrow> val list \<Rightarrow> int \<Rightarrow> bool \<Rightarrow> nat
     \<Rightarrow> (val list \<times> int \<times> nat \<times> nat) option"

definition bullet_round :: "item_fn \<Rightarrow> loop_fn \<Rightarrow> loop_fn" where
  "bullet_round item loop lines i depth items n =
     (if i < length lines
      then (let line = lines ! i
            in if TrimSpace line = [] then Some (items, i + 1, n)
               else (let currentIndent = GetIndentLevel line;
                         trimmedLine = TrimLeft line [CHR '' '', TAB]
                     in if currentIndent < depth then Some (items, i, n)
                        else if depth < currentIndent then Some (items, i, n)
                        else if \<not> bullet_prefix trimmedLine then Some (items, i, n)
                        else (case item lines i depth n of
                                None \<Rightarrow> None
                              | Some (itemContent, endIdx, n') \<Rightarrow>
                                  loop lines endIdx depth
                                    (items @ [list_item_node itemContent]) n')))
      else Some (items, i, n))"

definition bulletList_of :: "loop_fn \<Rightarrow> list_fn" where
  "bulletList_of loop lines startIdx depth n =
     (case loop lines startIdx depth [] n of
        None \<Rightarrow> None
      | Some (items, i, n') \<Rightarrow>
          if length items = 0 then Some (None, startIdx, n')
          else Some (Some (VMap [(''type'', VStr ''bulletList''), (''content'', VList items)]),
                     i, n'))"

definition ordered_round :: "item_fn \<Rightarrow> oloop_fn \<Rightarrow> oloop_fn" where
  "ordered_round item loop lines i depth items startOrder firstItem n =
     (if i < length lines
      then (let line = lines ! i
            in if TrimSpace line = [] then Some (items, startOrder, i + 1, n)
               else (let currentIndent = GetIndentLevel line;
                         trimmedLine = TrimLeft line [CHR '' '', TAB]
                     in if currentIndent < depth then Some (items, startOrder, i, n)
                        else if depth < currentIndent then Some (items, startOrder, i, n)
                        else (case FindStringSubmatch orderedRe trimmedLine of
                                None \<Rightarrow> Some (items, startOrder, i, n)
                              | Some m \<Rightarrow>
                                  (let startOrder' =
                                         (if firstItem
                                          then (case scan_d (m ! 1) of
                                                  Some v \<Rightarrow> v | None \<Rightarrow> startOrder)
                                          else startOrder)
                                   in (case item lines i depth n of
                                         None \<Rightarrow> None
                                       | Some (itemContent, endIdx, n') \<Rightarrow>
                                           loop lines endIdx depth
                                             (items @ [list_item_node itemContent])
                                             startOrder' False n')))))
      else Some (items, startOrder, i, n))"

definition orderedList_of :: "oloop_fn \<Rightarrow> list_fn" where
  "orderedList_of loop lines startIdx depth n =
     (case loop lines startIdx depth [] 1 True n of
        None \<Rightarrow> None
      | Some (items, startOrder, i, n') \<Rightarrow>
          if length items = 0 then Some (None, startIdx, n')
          else Some (Some (VMap ([(''type'', VStr ''orderedList''), (''content'', VList items)] @
                                 (if startOrder \<noteq> 1
                                  then [(''attrs'', VMap [(''order'', VInt startOrder)])]
                                  else []))),
                     i, n'))"

definition item_round :: "entropy \<Rightarrow> list_fn \<Rightarrow> list_fn \<Rightarrow> loop_fn \<Rightarrow> loop_fn" where
  "item_round src bullets ordered loop lines i depth content n =
     (if i < length lines
      then (let nextLine = lines ! i
            in if TrimSpace nextLine = [] then loop lines (i + 1) depth content n
               else if GetIndentLevel nextLine < depth + 1 then Some (content, i, n)
               else (let trimmedNext = TrimLeft nextLine [CHR '' '', TAB]
                     in if bullet_prefix trimmedNext
                        then (case bullets lines i (depth + 1) n of
                                None \<Rightarrow> None
                              | Some (nestedList, endIdx, n') \<Rightarrow>
                                  loop lines endIdx depth
                                    (case nestedList of
                                       Some l \<Rightarrow> content @ [l] | None \<Rightarrow> content) n')
                        else if MatchString orderedStartRe trimmedNext
                        then (case ordered lines i (depth + 1) n of
                                None \<Rightarrow> None
                              | Some (nestedList, endIdx, n') \<Rightarrow>
                                  loop lines endIdx depth
                                    (case nestedList of
                                       Some l \<Rightarrow> content @ [l] | None \<Rightarrow> content) n')
                        else if MatchString TaskItemRe trimmedNext
                        then (case parseTaskList src lines i n of
                                (nestedList, endIdx, n') \<Rightarrow>
                                  loop lines endIdx depth (content @ [nestedList]) n')
                        else Some (content, i, n)))
      else Some (content, i, n))"

definition listItem_of :: "entropy \<Rightarrow> loop_fn \<Rightarrow> item_fn" where
  "listItem_of src loop lines startIdx depth n =
     (let trimmedLine = TrimLeft (lines ! startIdx) [CHR '' '', TAB]
      in (case parseInlineContent src (item_text trimmedLine) n of (inline, n') \<Rightarrow>
            loop lines (startIdx + 1) depth
              [VMap [(''type'', VStr ''paragraph''), (''content'', VList inline)]] n'))"

primrec list_loops :: "nat \<Rightarrow> entropy \<Rightarrow> loop_fn \<times> oloop_fn \<times> loop_fn" where
  "list_loops 0 src =
     (\<lambda>lines i depth items n. None,
      \<lambda>lines i depth items startOrder firstItem n. None,
      \<lambda>lines i depth content n. None)"
| "list_loops (Suc fuel) src =
     (case list_loops fuel src of (bl, ol, il) \<Rightarrow>
        (bullet_round (listItem_of src il) bl,
         ordered_round (listItem_of src il) ol,
         item_round src (bulletList_of bl) (orderedList_of ol) il))"

definition bullet_loop :: "nat \<Rightarrow> entropy \<Rightarrow> loop_fn" where
  "bullet_loop fuel src = fst (list_loops fuel src)"

definition ordered_loop :: "nat \<Rightarrow> entropy \<Rightarrow> oloop_fn" where
  "ordered_loop fuel src = fst (snd (list_loops fuel src))"

definition item_loop :: "nat \<Rightarrow> entropy \<Rightarrow> loop_fn" where
  "item_loop fuel src = snd (snd (list_loops fuel src))"

definition parseBulletList :: "nat \<Rightarrow> entropy \<Rightarrow> list_fn" where
  "parseBulletList fuel src = bulletList_of (bullet_loop fuel src)"

definition parseOrderedList :: "nat \<Rightarrow> entropy \<Rightarrow> list_fn" where
  "parseOrderedList fuel src = orderedList_of (ordered_loop fuel src)"

definition parseListItem :: "nat \<Rightarrow> entropy \<Rightarrow> item_fn" where
  "parseListItem fuel src = listItem_of src (item_loop fuel src)"

text \<open>The loops, as the source writes them.\<close>

lemma bullet_loop_code [code]:
  "bullet_loop 0 src lines i depth items n = None"
  "bullet_loop (Suc fuel) src lines i depth items n =
     bullet_round (parseListItem fuel src) (bullet_loop fuel src) lines i depth items n"
  by (simp_all add: bullet_loop_def item_loop_def parseListItem_def split: prod.splits)

lemma ordered_loop_code [code]:
  "ordered_loop 0 src lines i depth items startOrder firstItem n = None"
  "ordered_loop (Suc fuel) src lines i depth items startOrder firstItem n =
     ordered_round (parseListItem fuel src) (ordered_loop fuel src)
       lines i depth items startOrder firstItem n"
  by (simp_all add: ordered_loop_def item_loop_def parseListItem_def split: prod.splits)

lemma item_loop_code [code]:
  "item_loop 0 src lines i depth content n = None"
  "item_loop (Suc fuel) src lines i depth content n =
     item_round src (parseBulletList fuel src) (parseOrderedList fuel src) (item_loop fuel src)
       lines i depth content n"
  by (simp_all add: item_loop_def bullet_loop_def ordered_loop_def parseBulletList_def
        parseOrderedList_def split: prod.splits)

lemma parseBulletList_code [code]:
  "parseBulletList fuel src lines startIdx depth n =
     bulletList_of (bullet_loop fuel src) lines startIdx depth n"
  by (simp add: parseBulletList_def)

lemma parseOrderedList_code [code]:
  "parseOrderedList fuel src lines startIdx depth n =
     orderedList_of (ordered_loop fuel src) lines startIdx depth n"
  by (simp add: parseOrderedList_def)

lemma parseListItem_code [code]:
  "parseListItem fuel src lines startIdx depth n =
     listItem_of src (item_loop fuel src) lines startIdx depth n"
  by (simp add: parseListItem_def)

subsection \<open>Blocks\<close>

text \<open>
  \<open>parseBlocks\<close> calls itself on the lines of a quote and on the body of a panel or
  an expand, and it calls the list functions, so it takes the same budget. One round of
  its loop is written with \<open>parse\<close> for \<open>parseBlocks\<close> and \<open>loop\<close> for the rest of
  the loop.
\<close>

type_synonym blocks_fn = "string list \<Rightarrow> nat \<Rightarrow> (val list \<times> nat) option"
type_synonym bloop_fn =
  "string list \<Rightarrow> nat \<Rightarrow> val list \<Rightarrow> (string \<times> string) list \<Rightarrow> nat \<Rightarrow> (val list \<times> nat) option"

function fence_lines :: "string list \<Rightarrow> nat \<Rightarrow> string list \<Rightarrow> string list \<times> nat" where
  "fence_lines lines i contentLines =
     (if i < length lines
      then (if MatchString FenceCloseRe (lines ! i) then (contentLines, i + 1)
            else fence_lines lines (i + 1) (contentLines @ [lines ! i]))
      else (contentLines, i))"
  by pat_completeness auto
termination
  by (relation "measure (\<lambda>(lines, i, contentLines). length lines - i)") auto

declare fence_lines.simps [simp del]

definition parsePanelBlock ::
  "blocks_fn \<Rightarrow> (string \<times> string) list \<Rightarrow> string \<Rightarrow> nat \<Rightarrow> (val \<times> nat) option" where
  "parsePanelBlock parse attrs content n =
     (let panelType = lookup attrs ''type'';
          panelType = (if panelType = [] then ''info'' else panelType)
      in (case parse (Split content NL) n of
            None \<Rightarrow> None
          | Some (innerBlocks, n') \<Rightarrow>
              Some (VMap [(''type'', VStr ''panel''),
                          (''attrs'', VMap [(''panelType'', VStr panelType)]),
                          (''content'', VList innerBlocks)], n')))"

definition parseExpandBlock ::
  "blocks_fn \<Rightarrow> (string \<times> string) list \<Rightarrow> string \<Rightarrow> nat \<Rightarrow> (val \<times> nat) option" where
  "parseExpandBlock parse attrs content n =
     (case parse (Split content NL) n of
        None \<Rightarrow> None
      | Some (innerBlocks, n') \<Rightarrow>
          Some (VMap [(''type'', VStr ''expand''),
                      (''attrs'', VMap [(''title'', VStr (lookup attrs ''title''))]),
                      (''content'', VList innerBlocks)], n'))"

definition parseFenceBlock ::
  "entropy \<Rightarrow> blocks_fn \<Rightarrow> string list \<Rightarrow> nat \<Rightarrow> string \<Rightarrow> string \<Rightarrow> nat
     \<Rightarrow> (val \<times> nat \<times> nat) option" where
  "parseFenceBlock src parse lines startIdx blockType attrStr n =
     (case fence_lines lines (startIdx + 1) [] of (contentLines, i) \<Rightarrow>
        (let innerContent = Join contentLines [NL];
             attrs = ParseAttrs attrStr
         in if blockType = ''panel''
            then map_option (\<lambda>(node, n'). (node, i, n')) (parsePanelBlock parse attrs innerContent n)
            else if blockType = ''expand''
            then map_option (\<lambda>(node, n'). (node, i, n')) (parseExpandBlock parse attrs innerContent n)
            else if blockType = ''mediaSingle''
            then (case parseMediaSingleBlock src attrs innerContent n of
                    (node, n') \<Rightarrow> Some (node, i, n'))
            else if blockType = ''mediaGroup''
            then (case parseMediaGroupBlock src innerContent n of
                    (node, n') \<Rightarrow> Some (node, i, n'))
            else Some (VMap [(''type'', VStr ''codeBlock''),
                             (''attrs'', VMap [(''language'', VStr blockType)]),
                             (''content'', VList [text_node innerContent])], i, n)))"

function quote_lines :: "string list \<Rightarrow> nat \<Rightarrow> string list \<Rightarrow> string list \<times> nat" where
  "quote_lines lines i quoteLines =
     (if i < length lines
      then (let line = lines ! i
            in if HasPrefix line ''> ''
               then quote_lines lines (i + 1) (quoteLines @ [TrimPrefix line ''> ''])
               else if line = ''>'' then quote_lines lines (i + 1) (quoteLines @ [[]])
               else (quoteLines, i))
      else (quoteLines, i))"
  by pat_completeness auto
termination
  by (relation "measure (\<lambda>(lines, i, quoteLines). length lines - i)") auto

declare quote_lines.simps [simp del]

definition parseBlockquote ::
  "blocks_fn \<Rightarrow> string list \<Rightarrow> nat \<Rightarrow> nat \<Rightarrow> (val \<times> nat \<times> nat) option" where
  "parseBlockquote parse lines startIdx n =
     (case quote_lines lines startIdx [] of (quoteLines, i) \<Rightarrow>
        (case parse quoteLines n of
           None \<Rightarrow> None
         | Some (innerContent, n') \<Rightarrow>
             Some (VMap [(''type'', VStr ''blockquote''), (''content'', VList innerContent)],
                   i, n')))"

definition append_node :: "val list \<Rightarrow> val option \<Rightarrow> val list" where
  "append_node content node = (case node of Some v \<Rightarrow> content @ [v] | None \<Rightarrow> content)"

definition blocks_round :: "nat \<Rightarrow> entropy \<Rightarrow> blocks_fn \<Rightarrow> bloop_fn \<Rightarrow> bloop_fn" where
  "blocks_round fuel src parse loop lines i content pendingMetadata n =
     (if i < length lines
      then (let line = lines ! i
            in if TrimSpace line = [] then loop lines (i + 1) content pendingMetadata n
               else (case FindStringSubmatch MetadataCommentRe line of
                 Some m \<Rightarrow> loop lines (i + 1) content (ParseAttrs (m ! 2)) n
               | None \<Rightarrow>
               (case FindStringSubmatch FenceBlockRe line of
                 Some m \<Rightarrow>
                   (case parseFenceBlock src parse lines i (m ! 1) (m ! 2) n of
                      None \<Rightarrow> None
                    | Some (node, endIdx, n') \<Rightarrow> loop lines endIdx (content @ [node]) [] n')
               | None \<Rightarrow>
                 if HasPrefix line [BQ, BQ, BQ]
                 then (case parseCodeBlock lines i of
                         (node, endIdx) \<Rightarrow> loop lines endIdx (content @ [node]) [] n)
                 else if HasPrefix line ''#''
                 then (case parseHeading src line pendingMetadata n of
                         (node, n') \<Rightarrow> loop lines (i + 1) (append_node content node) [] n')
                 else if line = ''---'' \<or> line = ''***'' \<or> line = ''___''
                 then loop lines (i + 1) (content @ [VMap [(''type'', VStr ''rule'')]]) [] n
                 else if HasPrefix line ''> '' \<or> line = ''>''
                 then (case parseBlockquote parse lines i n of
                         None \<Rightarrow> None
                       | Some (node, endIdx, n') \<Rightarrow> loop lines endIdx (content @ [node]) [] n')
                 else if HasPrefix line ''|'' \<and> Contains line ''|''
                 then (case parseTable src lines i n of
                         (node, endIdx, n') \<Rightarrow> loop lines endIdx (append_node content node) [] n')
                 else if MatchString TaskItemRe line
                 then (case parseTaskList src lines i n of
                         (node, endIdx, n') \<Rightarrow> loop lines endIdx (content @ [node]) [] n')
                 else if bullet_prefix line
                 then (case parseBulletList fuel src lines i 0 n of
                         None \<Rightarrow> None
                       | Some (node, endIdx, n') \<Rightarrow>
                           loop lines endIdx (append_node content node) [] n')
                 else if MatchString orderedStartRe line
                 then (case parseOrderedList fuel src lines i 0 n of
                         None \<Rightarrow> None
                       | Some (node, endIdx, n') \<Rightarrow>
                           loop lines endIdx (append_node content node) [] n')
                 else (case FindStringSubmatch standaloneImageRe (TrimSpace line) of
                         Some m \<Rightarrow>
                           (case parseStandaloneImage src (m ! 1) (m ! 2) n of
                              (node, n') \<Rightarrow> loop lines (i + 1) (content @ [node]) [] n')
                       | None \<Rightarrow>
                           (case parseParagraph src lines i pendingMetadata n of
                              (node, endIdx, n') \<Rightarrow>
                                loop lines endIdx (append_node content node) [] n')))))
      else Some (content, n))"

primrec parseBlocks_loop :: "nat \<Rightarrow> entropy \<Rightarrow> bloop_fn" where
  "parseBlocks_loop 0 src lines i content pendingMetadata n = None"
| "parseBlocks_loop (Suc fuel) src lines i content pendingMetadata n =
     blocks_round fuel src (\<lambda>ls m. parseBlocks_loop fuel src ls 0 [] [] m)
       (parseBlocks_loop fuel src) lines i content pendingMetadata n"

definition parseBlocks :: "nat \<Rightarrow> entropy \<Rightarrow> blocks_fn" where
  "parseBlocks fuel src lines n = parseBlocks_loop fuel src lines 0 [] [] n"

definition parseMarkdownDocument :: "nat \<Rightarrow> entropy \<Rightarrow> string \<Rightarrow> nat \<Rightarrow> (node \<times> nat) option" where
  "parseMarkdownDocument fuel src text n =
     (case parseBlocks fuel src (Split text NL) n of
        None \<Rightarrow> None
      | Some (content, n') \<Rightarrow>
          Some ([(''type'', VStr ''doc''), (''version'', VInt 1), (''content'', VList content)], n'))"

definition FromMarkdown :: "nat \<Rightarrow> entropy \<Rightarrow> string \<Rightarrow> nat \<Rightarrow> (node \<times> nat) option" where
  "FromMarkdown fuel src text n = parseMarkdownDocument fuel src text n"



section \<open>Properties\<close>

subsection \<open>The inline scan\<close>











subsection \<open>Unrecognised nodes\<close>

definition recognized_types :: "string list" where
  "recognized_types =
     [''paragraph'', ''text'', ''hardBreak'', ''heading'', ''bulletList'', ''orderedList'',
      ''taskList'', ''listItem'', ''taskItem'', ''codeBlock'', ''blockquote'', ''rule'',
      ''panel'', ''expand'', ''nestedExpand'', ''table'', ''mediaSingle'', ''mediaGroup'',
      ''media'', ''emoji'', ''mention'', ''status'', ''date'', ''inlineCard'']"

text \<open>
  Claim C10. A node whose type is none of the recognised kinds renders as the
  concatenation of the renderings of its children (the children that are maps, each
  at depth 0), and as the empty string when it has no content array. \<open>renderADFNode\<close>
  is a total function of the node: it returns on every document map.
\<close>

theorem render_unrecognized_node:
  assumes "as_string (map_of node ''type'') \<notin> set recognized_types"
  shows "renderADFNode loc node depth =
           (case as_list (map_of node ''content'') of
              None \<Rightarrow> []
            | Some content \<Rightarrow>
                concat (map (\<lambda>child. case child of
                                        VMap childMap \<Rightarrow> renderADFNode loc childMap 0
                                      | _ \<Rightarrow> []) content))"
proof -
  from assms have "renderADFNode loc node depth = renderContent loc node"
    by (subst renderADFNode.simps) (simp add: recognized_types_def Let_def)
  then show ?thesis by (simp add: renderContent.simps)
qed

theorem render_unrecognized_node_witness:
  "as_string (map_of [(''type'', VStr ''layoutSection''),
                      (''content'', VList [VMap [(''type'', VStr ''text''), (''text'', VStr ''hi'')],
                                           VStr ''stray'',
                                           VMap [(''type'', VStr ''rule'')]])] ''type'')
     \<notin> set recognized_types \<and>
   renderADFNode UTC [(''type'', VStr ''layoutSection''),
                      (''content'', VList [VMap [(''type'', VStr ''text''), (''text'', VStr ''hi'')],
                                           VStr ''stray'',
                                           VMap [(''type'', VStr ''rule'')]])] 2 = ''hi---''"
proof -
  let ?n = "[(''type'', VStr ''layoutSection''),
             (''content'', VList [VMap [(''type'', VStr ''text''), (''text'', VStr ''hi'')],
                                  VStr ''stray'',
                                  VMap [(''type'', VStr ''rule'')]])]"
  have h: "as_string (map_of ?n ''type'') \<notin> set recognized_types"
    by (simp add: recognized_types_def as_string_def)
  have t: "renderADFNode UTC [(''type'', VStr ''text''), (''text'', VStr ''hi'')] 0 = ''hi''"
    by code_simp
  have r: "renderADFNode UTC [(''type'', VStr ''rule'')] 0 = ''---''"
    by code_simp
  from render_unrecognized_node[OF h, of UTC 2] t r
  have "renderADFNode UTC ?n 2 = ''hi---''" by (simp add: as_list_def)
  with h show ?thesis by simp
qed



subsection \<open>Marks\<close>

lemma mark_type_cases:
  "t = ''code'' \<or> t = ''link'' \<or> t = ''em'' \<or> t = ''strong'' \<or> t = ''strike'' \<or>
   t = ''underline'' \<or> t = ''textColor'' \<or> t = ''backgroundColor'' \<or> t = ''subsup'' \<or>
   (t \<noteq> ''code'' \<and> t \<noteq> ''link'' \<and> t \<noteq> ''em'' \<and> t \<noteq> ''strong'' \<and> t \<noteq> ''strike'' \<and>
    t \<noteq> ''underline'' \<and> t \<noteq> ''textColor'' \<and> t \<noteq> ''backgroundColor'' \<and> t \<noteq> ''subsup'')"
  by blast

definition link_mark :: "string \<Rightarrow> val" where
  "link_mark href = VMap [(''type'', VStr ''link''), (''attrs'', VMap [(''href'', VStr href)])]"

definition color_mark :: "string \<Rightarrow> string \<Rightarrow> val" where
  "color_mark ty color = VMap [(''type'', VStr ty), (''attrs'', VMap [(''color'', VStr color)])]"

definition subsup_mark :: "string \<Rightarrow> val" where
  "subsup_mark ty = VMap [(''type'', VStr ''subsup''), (''attrs'', VMap [(''type'', VStr ty)])]"

text \<open>
  The nesting as the specification words it. The kinds of mark are listed innermost
  first; a kind is applied when the node carries a mark of that kind, with the
  attributes of the last such mark; the kinds applied are taken in the order of the
  list, each wrapping what the kinds before it have made.
\<close>

definition nesting_order :: "string list" where
  "nesting_order = [''code'', ''link'', ''em'', ''strong'', ''strike'', ''underline'',
                    ''textColor'', ''backgroundColor'', ''subsup'']"

definition marks_of :: "string \<Rightarrow> val list \<Rightarrow> node list" where
  "marks_of kind marks =
     concat (map (\<lambda>mark. case mark of
                            VMap markMap \<Rightarrow>
                              if as_string (map_of markMap ''type'') = kind then [markMap] else []
                          | _ \<Rightarrow> []) marks)"

definition applied_kinds :: "val list \<Rightarrow> string list" where
  "applied_kinds marks = filter (\<lambda>kind. marks_of kind marks \<noteq> []) nesting_order"

definition mark_attr :: "node \<Rightarrow> string \<Rightarrow> string" where
  "mark_attr markMap key =
     as_string (map_of (case as_map (map_of markMap ''attrs'') of Some a \<Rightarrow> a | None \<Rightarrow> []) key)"

definition wrap_kind :: "string \<Rightarrow> node \<Rightarrow> string \<Rightarrow> string" where
  "wrap_kind kind markMap t =
     (if kind = ''code'' then [BQ] @ t @ [BQ]
      else if kind = ''link''
        then (if mark_attr markMap ''title'' \<noteq> []
              then ''['' @ t @ ''](''  @ mark_attr markMap ''href'' @ '' '' @ [DQ]
                   @ mark_attr markMap ''title'' @ [DQ] @ '')''
              else ''['' @ t @ ''](''  @ mark_attr markMap ''href'' @ '')'')
      else if kind = ''em'' then ''*'' @ t @ ''*''
      else if kind = ''strong'' then ''**'' @ t @ ''**''
      else if kind = ''strike'' then ''~~'' @ t @ ''~~''
      else if kind = ''underline'' then ''<u>'' @ t @ ''</u>''
      else if kind = ''textColor''
        then (if mark_attr markMap ''color'' \<noteq> []
              then ''{color:'' @ mark_attr markMap ''color'' @ ''}'' @ t @ ''{color}'' else t)
      else if kind = ''backgroundColor''
        then (if mark_attr markMap ''color'' \<noteq> []
              then ''<mark style='' @ [DQ] @ ''background:'' @ mark_attr markMap ''color'' @ [DQ]
                   @ ''>'' @ t @ ''</mark>''
              else t)
      else if kind = ''subsup''
        then (if mark_attr markMap ''type'' = ''sub'' then ''<sub>'' @ t @ ''</sub>''
              else if mark_attr markMap ''type'' = ''sup'' then ''<sup>'' @ t @ ''</sup>''
              else t)
      else t)"

definition nest_marks :: "val list \<Rightarrow> string \<Rightarrow> string" where
  "nest_marks marks text =
     foldl (\<lambda>t kind. wrap_kind kind (last (marks_of kind marks)) t) text (applied_kinds marks)"

definition node_text :: "node \<Rightarrow> string" where
  "node_text node = as_string (map_of node ''text'')"

definition node_marks :: "node \<Rightarrow> val list" where
  "node_marks node = (case as_list (map_of node ''marks'') of Some marks \<Rightarrow> marks | None \<Rightarrow> [])"

definition text_with_marks :: "string \<Rightarrow> val list \<Rightarrow> node" where
  "text_with_marks t marks = [(''type'', VStr ''text''), (''text'', VStr t), (''marks'', VList marks)]"

text \<open>What the first pass of \<open>applyMarks\<close> has seen, told from the marks of each kind.\<close>

definition last_attr :: "string \<Rightarrow> string \<Rightarrow> val list \<Rightarrow> string" where
  "last_attr kind key marks =
     (if marks_of kind marks = [] then [] else mark_attr (last (marks_of kind marks)) key)"

definition seen :: "val list \<Rightarrow> marks_seen" where
  "seen marks =
     \<lparr>hasCode = (marks_of ''code'' marks \<noteq> []),
      hasLink = (marks_of ''link'' marks \<noteq> []),
      hasEm = (marks_of ''em'' marks \<noteq> []),
      hasStrong = (marks_of ''strong'' marks \<noteq> []),
      hasStrike = (marks_of ''strike'' marks \<noteq> []),
      hasUnderline = (marks_of ''underline'' marks \<noteq> []),
      hasSubsup = (marks_of ''subsup'' marks \<noteq> []),
      linkHref = last_attr ''link'' ''href'' marks,
      linkTitle = last_attr ''link'' ''title'' marks,
      textColor = last_attr ''textColor'' ''color'' marks,
      bgColor = last_attr ''backgroundColor'' ''color'' marks,
      subType = last_attr ''subsup'' ''type'' marks\<rparr>"

lemma marks_of_Nil [simp]: "marks_of kind [] = []"
  by (simp add: marks_of_def)

lemma marks_of_snoc_other:
  "\<forall>markMap. mark \<noteq> VMap markMap \<Longrightarrow> marks_of kind (marks @ [mark]) = marks_of kind marks"
  by (cases mark) (simp_all add: marks_of_def)

lemma marks_of_snoc_map:
  "marks_of kind (marks @ [VMap markMap]) =
     (if as_string (map_of markMap ''type'') = kind then marks_of kind marks @ [markMap]
      else marks_of kind marks)"
  by (simp add: marks_of_def)

lemma seen_no_marks: "seen [] = no_marks"
  by (simp add: seen_def no_marks_def last_attr_def)

lemma seen_snoc_map: "seen (marks @ [VMap markMap]) = see_mark (seen marks) (VMap markMap)"
  using mark_type_cases[of "as_string (map_of markMap ''type'')"]
  apply (elim disjE conjE)
  apply (simp_all add: seen_def see_mark_def marks_of_snoc_map last_attr_def mark_attr_def Let_def)
  done

lemma seen_snoc: "seen (marks @ [mark]) = see_mark (seen marks) mark"
proof (cases "\<exists>markMap. mark = VMap markMap")
  case True
  then show ?thesis by (auto simp: seen_snoc_map)
next
  case False
  then have "\<And>kind. marks_of kind (marks @ [mark]) = marks_of kind marks"
    by (simp add: marks_of_snoc_other)
  moreover from False have "see_mark (seen marks) mark = seen marks"
    by (cases mark) (simp_all add: see_mark_def)
  ultimately show ?thesis by (simp add: seen_def last_attr_def)
qed

lemma first_pass_seen: "foldl see_mark no_marks marks = seen marks"
  by (induction marks rule: rev_induct) (simp_all add: seen_no_marks seen_snoc)


lemma foldl_filter:
  "foldl f a (filter P xs) = foldl (\<lambda>a x. if P x then f a x else a) a xs"
  by (induction xs arbitrary: a) simp_all

definition nest_step :: "val list \<Rightarrow> string \<Rightarrow> string \<Rightarrow> string" where
  "nest_step marks t kind =
     (if marks_of kind marks \<noteq> [] then wrap_kind kind (last (marks_of kind marks)) t else t)"

lemma nest_marks_steps:
  "nest_marks marks text =
     nest_step marks (nest_step marks (nest_step marks (nest_step marks (nest_step marks
       (nest_step marks (nest_step marks (nest_step marks (nest_step marks text
          ''code'') ''link'') ''em'') ''strong'') ''strike'') ''underline'') ''textColor'')
          ''backgroundColor'') ''subsup''"
  unfolding nest_marks_def applied_kinds_def foldl_filter nesting_order_def nest_step_def
  by (simp only: foldl.simps)

lemma nest_steps:
  "nest_step marks t ''code'' = (if hasCode (seen marks) then [BQ] @ t @ [BQ] else t)"
  "nest_step marks t ''link'' =
     (if hasLink (seen marks)
      then (if linkTitle (seen marks) \<noteq> []
            then ''['' @ t @ ''](''  @ linkHref (seen marks) @ '' '' @ [DQ] @ linkTitle (seen marks)
                 @ [DQ] @ '')''
            else ''['' @ t @ ''](''  @ linkHref (seen marks) @ '')'')
      else t)"
  "nest_step marks t ''em'' = (if hasEm (seen marks) then ''*'' @ t @ ''*'' else t)"
  "nest_step marks t ''strong'' = (if hasStrong (seen marks) then ''**'' @ t @ ''**'' else t)"
  "nest_step marks t ''strike'' = (if hasStrike (seen marks) then ''~~'' @ t @ ''~~'' else t)"
  "nest_step marks t ''underline'' =
     (if hasUnderline (seen marks) then ''<u>'' @ t @ ''</u>'' else t)"
  "nest_step marks t ''textColor'' =
     (if textColor (seen marks) \<noteq> []
      then ''{color:'' @ textColor (seen marks) @ ''}'' @ t @ ''{color}'' else t)"
  "nest_step marks t ''backgroundColor'' =
     (if bgColor (seen marks) \<noteq> []
      then ''<mark style='' @ [DQ] @ ''background:'' @ bgColor (seen marks) @ [DQ] @ ''>''
           @ t @ ''</mark>''
      else t)"
  "nest_step marks t ''subsup'' =
     (if hasSubsup (seen marks)
      then (if subType (seen marks) = ''sub'' then ''<sub>'' @ t @ ''</sub>''
            else if subType (seen marks) = ''sup'' then ''<sup>'' @ t @ ''</sup>''
            else t)
      else t)"
  by (simp_all add: nest_step_def seen_def last_attr_def wrap_kind_def)

lemma wrap_marks_nest: "wrap_marks (seen marks) text = nest_marks marks text"
  unfolding nest_marks_steps nest_steps wrap_marks_def Let_def ..

lemma applyMarks_nest: "applyMarks text marks = nest_marks marks text"
  by (simp only: applyMarks_def first_pass_seen wrap_marks_nest)

lemma nest_marks_Nil: "nest_marks [] text = text"
  by (simp add: nest_marks_def applied_kinds_def)

lemma renderText_nest:
  "renderText node =
     (if node_text node = [] then [] else nest_marks (node_marks node) (node_text node))"
  by (simp add: renderText_def node_text_def node_marks_def applyMarks_nest nest_marks_Nil Let_def
        split: option.splits)

lemma marks_of_present:
  "marks_of kind marks \<noteq> [] \<longleftrightarrow>
     (\<exists>markMap. VMap markMap \<in> set marks \<and> as_string (map_of markMap ''type'') = kind)"
proof (induction marks rule: rev_induct)
  case Nil
  then show ?case by simp
next
  case (snoc mark marks)
  show ?case
  proof (cases "\<exists>markMap. mark = VMap markMap")
    case True
    then obtain mm where "mark = VMap mm" by blast
    with snoc show ?thesis by (auto simp: marks_of_snoc_map)
  next
    case False
    with snoc show ?thesis by (auto simp: marks_of_snoc_other)
  qed
qed

lemma applied_kinds_permuted:
  assumes "mset marks' = mset marks"
  shows "applied_kinds marks' = applied_kinds marks"
proof -
  from assms have "set marks' = set marks" by (rule mset_eq_setD)
  then have "\<And>kind. (marks_of kind marks' \<noteq> []) = (marks_of kind marks \<noteq> [])"
    by (simp only: marks_of_present)
  then show ?thesis by (simp add: applied_kinds_def)
qed


text \<open>
  Claim C7, as amended. Rendering a Text node whose text is not empty wraps the text
  once for each kind of mark the node carries, in the fixed order code, link, emphasis,
  strong, strike, underline, text colour, background colour, sub/sup, innermost first,
  whatever the order of the marks in the node: the rendering of every node is the
  nesting worded above, and the kinds that are applied, in their order, are the same
  for every rearrangement of the marks. So a node of non-empty text that carries
  Strong and Em renders as \<open>***text***\<close> in either order, and nine marks listed
  outermost first render nested innermost first. A Text node whose text is empty renders
  as the empty string, with no wrapper.
\<close>

theorem renderText_fixed_nesting:
  "renderText node =
     (if node_text node = [] then [] else nest_marks (node_marks node) (node_text node))
   \<and> renderADFNode loc (text_with_marks text marks) depth = renderText (text_with_marks text marks)
   \<and> (mset marks' = mset marks \<longrightarrow> applied_kinds marks' = applied_kinds marks)
   \<and> (text \<noteq> [] \<longrightarrow>
        renderText (text_with_marks text [simple_mark ''strong'', simple_mark ''em''])
          = ''***'' @ text @ ''***''
      \<and> renderText (text_with_marks text [simple_mark ''em'', simple_mark ''strong''])
          = ''***'' @ text @ ''***''
      \<and> ''***'' @ text @ ''***'' \<noteq> ''**_'' @ text @ ''_**''
      \<and> renderText (text_with_marks text
            [subsup_mark ''sup'', color_mark ''backgroundColor'' ''#ff0'',
             color_mark ''textColor'' ''red'', simple_mark ''underline'', simple_mark ''strike'',
             simple_mark ''strong'', simple_mark ''em'', link_mark ''http://a.b'',
             simple_mark ''code''])
          = ''<sup><mark style='' @ [DQ] @ ''background:#ff0'' @ [DQ] @ ''>{color:red}<u>~~***[''
            @ [BQ] @ text @ [BQ] @ ''](http://a.b)***~~</u>{color}</mark></sup>'')"
proof (intro conjI impI)
  show "renderText node =
     (if node_text node = [] then [] else nest_marks (node_marks node) (node_text node))"
    by (rule renderText_nest)
next
  show "renderADFNode loc (text_with_marks text marks) depth
          = renderText (text_with_marks text marks)"
    by (subst renderADFNode.simps) (simp add: text_with_marks_def as_string_def Let_def)
next
  assume "mset marks' = mset marks"
  then show "applied_kinds marks' = applied_kinds marks" by (rule applied_kinds_permuted)
next
  assume t: "text \<noteq> []"
  then show "renderText (text_with_marks text [simple_mark ''strong'', simple_mark ''em''])
          = ''***'' @ text @ ''***''"
    by (simp add: renderText_def text_with_marks_def as_list_def applyMarks_def see_mark_def
          simple_mark_def as_string_def as_map_def no_marks_def wrap_marks_def Let_def)
  from t show "renderText (text_with_marks text [simple_mark ''em'', simple_mark ''strong''])
          = ''***'' @ text @ ''***''"
    by (simp add: renderText_def text_with_marks_def as_list_def applyMarks_def see_mark_def
          simple_mark_def as_string_def as_map_def no_marks_def wrap_marks_def Let_def)
  show "''***'' @ text @ ''***'' \<noteq> ''**_'' @ text @ ''_**''" by simp
  from t show "renderText (text_with_marks text
            [subsup_mark ''sup'', color_mark ''backgroundColor'' ''#ff0'',
             color_mark ''textColor'' ''red'', simple_mark ''underline'', simple_mark ''strike'',
             simple_mark ''strong'', simple_mark ''em'', link_mark ''http://a.b'',
             simple_mark ''code''])
          = ''<sup><mark style='' @ [DQ] @ ''background:#ff0'' @ [DQ] @ ''>{color:red}<u>~~***[''
            @ [BQ] @ text @ [BQ] @ ''](http://a.b)***~~</u>{color}</mark></sup>''"
    by (simp add: renderText_def text_with_marks_def as_list_def applyMarks_def see_mark_def
          simple_mark_def link_mark_def color_mark_def subsup_mark_def as_string_def as_map_def
          no_marks_def wrap_marks_def Let_def)
qed

theorem renderText_fixed_nesting_witness:
  "mset [simple_mark ''em'', link_mark ''http://a.b'', simple_mark ''strong'']
     = mset [simple_mark ''strong'', simple_mark ''em'', link_mark ''http://a.b''] \<and>
   applied_kinds [simple_mark ''em'', link_mark ''http://a.b'', simple_mark ''strong'']
     = [''link'', ''em'', ''strong''] \<and>
   applied_kinds [simple_mark ''strong'', simple_mark ''em'', link_mark ''http://a.b'']
     = [''link'', ''em'', ''strong''] \<and>
   ''Both'' \<noteq> [] \<and>
   renderText (text_with_marks ''Both'' [simple_mark ''strong'', simple_mark ''em''])
     = ''***Both***'' \<and>
   renderText (text_with_marks ''Both'' [simple_mark ''em'', simple_mark ''strong''])
     = ''***Both***'' \<and>
   renderText (text_with_marks ''Both''
                 [simple_mark ''strong'', simple_mark ''em'', link_mark ''http://a.b''])
     = ''***[Both](http://a.b)***''"
proof -
  let ?ms = "[simple_mark ''strong'', simple_mark ''em'', link_mark ''http://a.b'']"
  let ?ms' = "[simple_mark ''em'', link_mark ''http://a.b'', simple_mark ''strong'']"
  let ?n = "text_with_marks ''Both'' ?ms"
  have p: "mset ?ms' = mset ?ms" by simp
  have k: "applied_kinds ?ms = [''link'', ''em'', ''strong'']" by code_simp
  have t: "''Both'' \<noteq> []" by simp
  have nt: "node_text ?n = ''Both''" and nm: "node_marks ?n = ?ms"
    by (simp_all add: node_text_def node_marks_def text_with_marks_def as_string_def as_list_def)
  have v: "nest_marks ?ms ''Both'' = ''***[Both](http://a.b)***''" by code_simp
  note w = renderText_fixed_nesting[of ?n UTC "''Both''" ?ms 0 ?ms']
  from w p have k': "applied_kinds ?ms' = applied_kinds ?ms" by blast
  from w t have
    "renderText (text_with_marks ''Both'' [simple_mark ''strong'', simple_mark ''em''])
       = ''***'' @ ''Both'' @ ''***''"
    "renderText (text_with_marks ''Both'' [simple_mark ''em'', simple_mark ''strong''])
       = ''***'' @ ''Both'' @ ''***''" by blast+
  moreover from w nt nm t have "renderText ?n = nest_marks ?ms ''Both''" by simp
  ultimately show ?thesis using p k k' t v by simp
qed

theorem empty_text_counterexample:
  "renderText (text_with_marks [] [simple_mark ''strong'', simple_mark ''em'']) = [] \<and>
   renderADFNode UTC (text_with_marks [] [simple_mark ''strong'', simple_mark ''em'']) 0 = [] \<and>
   ''***'' @ [] @ ''***'' \<noteq> ([] :: string)"
  by code_simp

subsection \<open>Media placeholders\<close>

text \<open>
  The upload step (attachment.go) takes a media node for pending when its id starts
  with the marker below; an identifier the platform issued does not.
\<close>

definition isPendingID :: "string \<Rightarrow> bool" where
  "isPendingID ident = HasPrefix ident ''__PENDING_UPLOAD_''"

definition pending_media :: "string \<Rightarrow> string \<Rightarrow> string \<Rightarrow> val" where
  "pending_media ident alt source =
     VMap [(''type'', VStr ''media''),
           (''attrs'', VMap [(''id'', VStr ident), (''type'', VStr ''file''),
                             (''alt'', VStr alt), (''_source'', VStr source)])]"

definition resolved_media :: "string \<Rightarrow> string \<Rightarrow> string \<Rightarrow> string \<Rightarrow> val" where
  "resolved_media ident collection mediaType alt =
     VMap [(''type'', VStr ''media''),
           (''attrs'', VMap [(''id'', VStr ident), (''collection'', VStr collection),
                             (''type'', VStr mediaType), (''alt'', VStr alt)])]"

definition media_single :: "val \<Rightarrow> val" where
  "media_single media =
     VMap [(''type'', VStr ''mediaSingle''),
           (''attrs'', VMap [(''layout'', VStr ''align-start'')]),
           (''content'', VList [media])]"

definition document :: "val list \<Rightarrow> node" where
  "document content =
     [(''type'', VStr ''doc''), (''version'', VInt 1), (''content'', VList content)]"

lemma SplitN_piece:
  "sep \<notin> set a \<Longrightarrow> SplitN (a @ sep # rest) sep (Suc (Suc k)) = a # SplitN rest sep (Suc k)"
  by (induction a) auto

lemma pending_id_marked:
  "isPendingID (''__PENDING_UPLOAD_'' @ lid @ ''__'') \<and> ''__PENDING_UPLOAD_'' @ lid @ ''__'' \<noteq> []"
  by (simp add: isPendingID_def HasPrefix_def)

lemma parseMediaFromImage_pending:
  assumes "\<not> HasPrefix source ''jira-media:''"
  shows "parseMediaFromImage src alt source n =
           (pending_media (''__PENDING_UPLOAD_'' @ fst (GenerateLocalID src n) @ ''__'') alt source,
            Suc n)"
  using assms
  by (simp add: parseMediaFromImage_def pending_media_def GenerateLocalID_def Let_def
        split: prod.splits)

lemma parseMediaFromImage_resolved:
  assumes "CHR '':'' \<notin> set ident" and "CHR '':'' \<notin> set collection"
  shows "parseMediaFromImage src alt
           (''jira-media:'' @ ident @ '':'' @ collection @ '':'' @ mediaType) n =
           (resolved_media ident collection mediaType alt, n)"
proof -
  let ?s = "''jira-media:'' @ ident @ '':'' @ collection @ '':'' @ mediaType"
  have p: "HasPrefix ?s ''jira-media:''" by (simp add: HasPrefix_def)
  have t: "TrimPrefix ?s ''jira-media:'' = ident @ CHR '':'' # (collection @ CHR '':'' # mediaType)"
    by (simp add: TrimPrefix_def HasPrefix_def)
  have "SplitN (ident @ CHR '':'' # (collection @ CHR '':'' # mediaType)) CHR '':'' 3
          = [ident, collection, mediaType]"
    using assms by (simp add: numeral_3_eq_3 SplitN_piece)
  with p t show ?thesis
    by (simp add: parseMediaFromImage_def resolved_media_def Let_def)
qed

lemma standalone_image_pending:
  "FromMarkdown (Suc (Suc fuel)) src ''![cat](https://x/cat.png)'' n =
     Some (document [media_single
                       (pending_media (''__PENDING_UPLOAD_'' @ fst (GenerateLocalID src n) @ ''__'')
                          ''cat'' ''https://x/cat.png'')], Suc n)"
proof -
  let ?l = "''![cat](https://x/cat.png)''"
  have s: "Split ?l NL = [?l]" by code_simp
  have c1: "TrimSpace ?l = ?l" by code_simp
  have c2: "FindStringSubmatch MetadataCommentRe ?l = None" by code_simp
  have c3: "FindStringSubmatch FenceBlockRe ?l = None" by code_simp
  have c4: "\<not> HasPrefix ?l [BQ, BQ, BQ]" "\<not> HasPrefix ?l ''#''" "\<not> HasPrefix ?l ''> ''"
    "\<not> HasPrefix ?l ''|''" "\<not> bullet_prefix ?l" by code_simp+
  have c5: "\<not> MatchString TaskItemRe ?l" "\<not> MatchString orderedStartRe ?l" by code_simp+
  have c6: "FindStringSubmatch standaloneImageRe ?l = Some [?l, ''cat'', ''https://x/cat.png'']"
    by code_simp
  have c7: "\<not> HasPrefix ''https://x/cat.png'' ''jira-media:''" by code_simp
  show ?thesis
    by (simp add: FromMarkdown_def parseMarkdownDocument_def parseBlocks_def s blocks_round_def
          c1 c2 c3 c4 c5 c6 Let_def parseStandaloneImage_def parseMediaFromImage_pending[OF c7]
          document_def media_single_def)
qed

definition comment_in_alt :: string where
  "comment_in_alt = ''![<!-- adf:x y -->](https://x/cat.png)''"

lemma parseStandaloneImage_pending:
  assumes "\<not> HasPrefix source ''jira-media:''"
  shows "parseStandaloneImage src alt source n =
           (media_single
              (pending_media (''__PENDING_UPLOAD_'' @ fst (GenerateLocalID src n) @ ''__'')
                 alt source), Suc n)"
  by (simp add: parseStandaloneImage_def parseMediaFromImage_pending[OF assms] media_single_def)

lemma parseStandaloneImage_resolved:
  assumes "CHR '':'' \<notin> set ident" and "CHR '':'' \<notin> set collection"
  shows "parseStandaloneImage src alt
           (''jira-media:'' @ ident @ '':'' @ collection @ '':'' @ mediaType) n =
           (media_single (resolved_media ident collection mediaType alt), n)"
  by (simp only: parseStandaloneImage_def parseMediaFromImage_resolved[OF assms] media_single_def
        prod.case)

text \<open>
  Claim C9 at the line \<open>![<!-- adf:x y -->](https://x/cat.png)\<close>. The line is a standalone
  image: the image pattern of \<open>parseBlocks\<close> matches all of it, with the source
  \<open>https://x/cat.png\<close>, which is not a reserved reference, and \<open>parseStandaloneImage\<close>
  would make of it the MediaSingle with the pending media node that the claim describes.
  \<open>parseBlocks\<close> never gets there: it first looks for a metadata comment anywhere in
  the line, finds one in the alternative text, takes the whole line for the comment and
  goes on, so the document has no content. The line \<open>![cat](https://x/cat.png)\<close> does
  parse as the claim says.
\<close>

theorem image_line_taken_for_comment:
  "FindStringSubmatch standaloneImageRe (TrimSpace comment_in_alt) =
     Some [comment_in_alt, ''<!-- adf:x y -->'', ''https://x/cat.png''] \<and>
   \<not> HasPrefix ''https://x/cat.png'' ''jira-media:'' \<and>
   parseStandaloneImage src ''<!-- adf:x y -->'' ''https://x/cat.png'' n =
     (media_single
        (pending_media (''__PENDING_UPLOAD_'' @ fst (GenerateLocalID src n) @ ''__'')
           ''<!-- adf:x y -->'' ''https://x/cat.png''), Suc n) \<and>
   FindStringSubmatch MetadataCommentRe comment_in_alt = Some [''<!-- adf:x y -->'', ''x'', ''y''] \<and>
   FromMarkdown (Suc (Suc fuel)) src comment_in_alt n = Some (document [], n) \<and>
   FromMarkdown (Suc (Suc fuel)) src ''![cat](https://x/cat.png)'' n =
     Some (document [media_single
                       (pending_media (''__PENDING_UPLOAD_'' @ fst (GenerateLocalID src n) @ ''__'')
                          ''cat'' ''https://x/cat.png'')], Suc n)"
proof -
  let ?l = "''![<!-- adf:x y -->](https://x/cat.png)''"
  have i: "FindStringSubmatch standaloneImageRe (TrimSpace ?l) =
             Some [?l, ''<!-- adf:x y -->'', ''https://x/cat.png'']" by code_simp
  have h: "\<not> HasPrefix ''https://x/cat.png'' ''jira-media:''" by code_simp
  have s: "Split ?l NL = [?l]" by code_simp
  have t: "TrimSpace ?l \<noteq> []" by code_simp
  have m: "FindStringSubmatch MetadataCommentRe ?l = Some [''<!-- adf:x y -->'', ''x'', ''y'']"
    by code_simp
  have d: "FromMarkdown (Suc (Suc fuel)) src ?l n = Some (document [], n)"
    by (simp add: FromMarkdown_def parseMarkdownDocument_def parseBlocks_def s blocks_round_def
          t m Let_def document_def)
  from i h m d parseStandaloneImage_pending[OF h] standalone_image_pending
  show ?thesis by (simp add: comment_in_alt_def)
qed

subsection \<open>Headings\<close>
















subsection \<open>Tables\<close>

text \<open>
  The source's test for a separator row, and the test the specification words: a row
  whose cells are all made of dashes only.
\<close>

definition row_skipped :: "string \<Rightarrow> bool" where
  "row_skipped line = Contains (TrimSpace line) ''---''"

definition dash_only_row :: "string \<Rightarrow> bool" where
  "dash_only_row line =
     list_all (\<lambda>cell. cell \<noteq> [] \<and> list_all (\<lambda>c. c = CHR ''-'') cell)
              (parseTableRow (TrimSpace line))"

text \<open>
  The lines of the table that starts at line \<open>i\<close>, those of them that are kept, and
  the rows built from the kept lines: header cells for the first, data cells after.
\<close>

definition table_block :: "string list \<Rightarrow> nat \<Rightarrow> string list" where
  "table_block lines i = takeWhile (\<lambda>l. HasPrefix l ''|'') (drop i lines)"

definition kept_lines :: "string list \<Rightarrow> nat \<Rightarrow> string list" where
  "kept_lines lines i = filter (\<lambda>l. \<not> row_skipped l) (table_block lines i)"

definition row_node :: "val list \<Rightarrow> val" where
  "row_node rowContent = VMap [(''type'', VStr ''tableRow''), (''content'', VList rowContent)]"

fun build_rows :: "entropy \<Rightarrow> string list \<Rightarrow> bool \<Rightarrow> nat \<Rightarrow> val list \<times> nat" where
  "build_rows src [] isFirstRow n = ([], n)"
| "build_rows src (l # ls) isFirstRow n =
     (case table_cells src (if isFirstRow then ''tableHeader'' else ''tableCell'')
             (parseTableRow (TrimSpace l)) n of
        (rowContent, n') \<Rightarrow>
          (case build_rows src ls False n' of
             (rows, n'') \<Rightarrow> (row_node rowContent # rows, n'')))"

lemma table_block_step:
  "i < length lines \<Longrightarrow> HasPrefix (lines ! i) ''|'' \<Longrightarrow>
   table_block lines i = lines ! i # table_block lines (Suc i)"
  by (simp add: table_block_def Cons_nth_drop_Suc[symmetric])

lemma table_block_end:
  "\<not> (i < length lines \<and> HasPrefix (lines ! i) ''|'') \<Longrightarrow> table_block lines i = []"
proof (cases "i < length lines")
  case True
  assume "\<not> (i < length lines \<and> HasPrefix (lines ! i) ''|'')"
  with True have "\<not> HasPrefix (lines ! i) ''|''" by simp
  with True show ?thesis by (simp add: table_block_def Cons_nth_drop_Suc[symmetric])
next
  case False
  then show ?thesis by (simp add: table_block_def)
qed

lemma table_rows_end:
  assumes "\<not> (i < length lines \<and> HasPrefix (lines ! i) ''|'')"
  shows "table_rows src lines i tableRows isFirstRow n = (tableRows, i, n)"
  by (subst table_rows.simps) (simp only: if_not_P[OF assms])

lemma table_rows_skip:
  assumes "i < length lines \<and> HasPrefix (lines ! i) ''|''"
    and "Contains (TrimSpace (lines ! i)) ''---''"
  shows "table_rows src lines i tableRows isFirstRow n =
         table_rows src lines (i + 1) tableRows isFirstRow n"
  by (subst table_rows.simps) (simp only: if_P[OF assms(1)] Let_def if_P[OF assms(2)])

lemma table_rows_keep:
  assumes "i < length lines \<and> HasPrefix (lines ! i) ''|''"
    and "\<not> Contains (TrimSpace (lines ! i)) ''---''"
    and "table_cells src (if isFirstRow then ''tableHeader'' else ''tableCell'')
           (parseTableRow (TrimSpace (lines ! i))) n = (rowContent, n')"
  shows "table_rows src lines i tableRows isFirstRow n =
         table_rows src lines (i + 1) (tableRows @ [row_node rowContent]) False n'"
  by (subst table_rows.simps)
     (simp only: if_P[OF assms(1)] Let_def if_not_P[OF assms(2)] assms(3) prod.case row_node_def)

lemma table_rows_refine:
  "table_rows src lines i tableRows isFirstRow n =
     (tableRows @ fst (build_rows src (kept_lines lines i) isFirstRow n),
      i + length (table_block lines i),
      snd (build_rows src (kept_lines lines i) isFirstRow n))"
proof (induction src lines i tableRows isFirstRow n rule: table_rows.induct)
  case (1 src lines i tableRows isFirstRow n)
  show ?case
  proof (cases "i < length lines \<and> HasPrefix (lines ! i) ''|''")
    case False
    from table_block_end[OF False] table_rows_end[OF False] show ?thesis
      by (simp add: kept_lines_def)
  next
    case True
    then have blk: "table_block lines i = lines ! i # table_block lines (Suc i)"
      by (simp add: table_block_step)
    show ?thesis
    proof (cases "Contains (TrimSpace (lines ! i)) ''---''")
      case skip: True
      from skip blk have k: "kept_lines lines i = kept_lines lines (Suc i)"
        by (simp add: kept_lines_def row_skipped_def)
      from "1.IH"(1)[OF True refl skip] table_rows_skip[OF True skip] k blk show ?thesis
        by simp
    next
      case keep: False
      from keep blk have k: "kept_lines lines i = lines ! i # kept_lines lines (Suc i)"
        by (simp add: kept_lines_def row_skipped_def)
      obtain rowContent n' where c:
        "table_cells src (if isFirstRow then ''tableHeader'' else ''tableCell'')
           (parseTableRow (TrimSpace (lines ! i))) n = (rowContent, n')"
        by (cases "table_cells src (if isFirstRow then ''tableHeader'' else ''tableCell'')
           (parseTableRow (TrimSpace (lines ! i))) n")
      from "1.IH"(2)[OF True refl keep c[symmetric]]
      have "table_rows src lines (i + 1) (tableRows @ [row_node rowContent]) False n' =
          ((tableRows @ [row_node rowContent]) @
             fst (build_rows src (kept_lines lines (i + 1)) False n'),
           i + 1 + length (table_block lines (i + 1)),
           snd (build_rows src (kept_lines lines (i + 1)) False n'))"
        by (simp add: row_node_def)
      with table_rows_keep[OF True keep c] k blk c show ?thesis
        by (simp split: prod.splits)
    qed
  qed
qed

definition table_node :: "val list \<Rightarrow> val" where
  "table_node tableRows =
     VMap [(''type'', VStr ''table''),
           (''attrs'', VMap [(''isNumberColumnEnabled'', VBool False),
                             (''layout'', VStr ''default'')]),
           (''content'', VList tableRows)]"

text \<open>
  What \<open>parseTable\<close> does: a line of the table is left out exactly when it holds
  three dashes in a row anywhere; the rows are built, in order, from the lines that are
  kept, header cells for the first, and the index returned is the end of the block.
\<close>

lemma parseTable_rows:
  "parseTable src lines startIdx n =
     (if fst (build_rows src (kept_lines lines startIdx) True n) = [] then None
      else Some (table_node (fst (build_rows src (kept_lines lines startIdx) True n))),
      startIdx + length (table_block lines startIdx),
      snd (build_rows src (kept_lines lines startIdx) True n))"
  by (simp add: parseTable_def table_rows_refine table_node_def)

definition plain_cell :: "string \<Rightarrow> string \<Rightarrow> val" where
  "plain_cell cellType s =
     VMap [(''type'', VStr cellType), (''attrs'', VMap []),
           (''content'', VList [VMap [(''type'', VStr ''paragraph''),
                                      (''content'', VList [text_node s])]])]"

text \<open>
  Claim C5 at the table of a header row, a separator row and the data row
  \<open>| x---y | 2 |\<close>. The cells of the data row are not made of dashes only, so the
  claim keeps the row; \<open>parseTable\<close> takes every line that holds three dashes in a row
  for a separator and leaves the row out of the table, which then has its header row
  only. The other way round, the row \<open>|--|--|\<close> is made of dashes only and is kept as a
  row of data cells.
\<close>

theorem parseTable_drops_data_row:
  "\<not> dash_only_row ''| x---y | 2 |'' \<and>
   parseTable src [''| a | b |'', ''|---|---|'', ''| x---y | 2 |''] 0 n =
     (Some (table_node [row_node [plain_cell ''tableHeader'' ''a'',
                                  plain_cell ''tableHeader'' ''b'']]), 3, n) \<and>
   FromMarkdown 5 src (''| a | b |'' @ [NL] @ ''|---|---|'' @ [NL] @ ''| x---y | 2 |'') n =
     Some (document [table_node [row_node [plain_cell ''tableHeader'' ''a'',
                                           plain_cell ''tableHeader'' ''b'']]], n) \<and>
   dash_only_row ''|--|--|'' \<and>
   parseTable src [''| a | b |'', ''|--|--|'', ''| 1 | 2 |''] 0 n =
     (Some (table_node [row_node [plain_cell ''tableHeader'' ''a'',
                                  plain_cell ''tableHeader'' ''b''],
                        row_node [plain_cell ''tableCell'' ''--'',
                                  plain_cell ''tableCell'' ''--''],
                        row_node [plain_cell ''tableCell'' ''1'',
                                  plain_cell ''tableCell'' ''2'']]), 3, n)"
  by code_simp

subsection \<open>Timestamps\<close>

text \<open>\<open>time.FixedZone\<close>: a zone with the same offset at every instant.\<close>

definition fixedZone :: "int \<Rightarrow> location" where
  "fixedZone offset = (\<lambda>sec. offset)"

lemma timestamp_roundtrip_east_of_utc:
  assumes "0 \<le> offset" and "offset < 86400"
  shows "FormatTimestamp (fixedZone offset) (ParseTimestamp ''2024-01-01'') = ''2024-01-01''"
proof -
  have p: "ParseTimestamp ''2024-01-01'' = ''1704067200000''" by code_simp
  have t: "TrimSpace ''1704067200000'' = ''1704067200000''" by code_simp
  have s: "scan_d ''1704067200000'' = Some 1704067200000" by code_simp
  from assms have d: "(1704067200 + offset) div 86400 = 19723" by simp
  have u: "format_date UTC 1704067200000 = ''2024-01-01''" by code_simp
  have "format_date (fixedZone offset) 1704067200000 = format_date UTC 1704067200000"
    using d by (simp add: format_date_def fixedZone_def UTC_def Let_def)
  with u show ?thesis
    by (simp add: p FormatTimestamp_def t s Let_def)
qed

text \<open>
  Claim C6 at the input \<open>2024-01-01\<close>, in a process whose local zone is five hours
  west of UTC: the date is parsed as midnight UTC and printed in the local zone, where
  that instant is still the day before.
\<close>

theorem timestamp_roundtrip_west_of_utc:
  "ParseTimestamp ''2024-01-01'' = ''1704067200000'' \<and>
   FormatTimestamp (fixedZone (- 18000)) (ParseTimestamp ''2024-01-01'') = ''2023-12-31'' \<and>
   FormatTimestamp UTC (ParseTimestamp ''2024-01-01'') = ''2024-01-01''"
  by code_simp

subsection \<open>White space of the rendering\<close>

definition hard_break :: val where
  "hard_break = VMap [(''type'', VStr ''hardBreak'')]"

definition paragraph_node :: "val list \<Rightarrow> val" where
  "paragraph_node inline = VMap [(''type'', VStr ''paragraph''), (''content'', VList inline)]"

text \<open>
  Claim C8 at a paragraph with three hard breaks in a row: each break renders as two
  spaces and a newline, the runs of newlines are collapsed first and the spaces at the
  ends of the lines trimmed after, which leaves three newlines in a row.
\<close>

theorem render_leaves_three_newlines:
  "ToMarkdown loc (document [paragraph_node [text_node ''a'', hard_break, hard_break, hard_break,
                                        text_node ''b'']])
     = ''a'' @ [NL, NL, NL] @ ''b'' \<and>
   Contains (''a'' @ [NL, NL, NL] @ ''b'') [NL, NL, NL] \<and>
   NormalizeWhitespace (''a  '' @ [NL] @ ''  '' @ [NL] @ ''  '' @ [NL] @ ''b'')
     = ''a'' @ [NL, NL, NL] @ ''b''"
  by code_simp

subsection \<open>A list item that never ends\<close>

definition too_deep :: "string list" where
  "too_deep = [''- a'', ''    - b'']"

lemma too_deep_line1:
  "Suc 0 < length too_deep" "too_deep ! Suc 0 = ''    - b''" "TrimSpace ''    - b'' \<noteq> []"
  "GetIndentLevel ''    - b'' = 2" "bullet_prefix (TrimLeft ''    - b'' [CHR '' '', TAB])"
  by code_simp+

lemma too_deep_line0:
  "too_deep \<noteq> []" "0 < length too_deep" "too_deep ! 0 = ''- a''" "TrimSpace ''- a'' \<noteq> []"
  "GetIndentLevel ''- a'' = 0" "bullet_prefix (TrimLeft ''- a'' [CHR '' '', TAB])"
  "FindStringSubmatch MetadataCommentRe ''- a'' = None"
  "FindStringSubmatch FenceBlockRe ''- a'' = None"
  "\<not> HasPrefix ''- a'' [BQ, BQ, BQ]" "\<not> HasPrefix ''- a'' ''#''" "\<not> HasPrefix ''- a'' ''> ''"
  "\<not> HasPrefix ''- a'' ''|''" "\<not> MatchString TaskItemRe ''- a''" "bullet_prefix ''- a''"
  by code_simp+

lemma nested_bullets_no_progress:
  "parseBulletList fuel src too_deep (Suc 0) (Suc 0) n = None \<or>
   parseBulletList fuel src too_deep (Suc 0) (Suc 0) n = Some (None, 1, n)"
proof (cases fuel)
  case 0
  then show ?thesis by (simp add: parseBulletList_code bulletList_of_def bullet_loop_code)
next
  case (Suc k)
  have "bullet_loop (Suc k) src too_deep (Suc 0) (Suc 0) [] n = Some ([], 1, n)"
    by (simp add: bullet_loop_code bullet_round_def too_deep_line1 Let_def)
  with Suc show ?thesis by (simp add: parseBulletList_code bulletList_of_def)
qed

lemma item_loop_never_returns:
  "item_loop fuel src too_deep (Suc 0) 0 content n = None"
proof (induction fuel arbitrary: content n)
  case 0
  then show ?case by (simp add: item_loop_code)
next
  case (Suc k)
  have step: "item_loop (Suc k) src too_deep (Suc 0) 0 content n =
      (case parseBulletList k src too_deep (Suc 0) (Suc 0) n of
         None \<Rightarrow> None
       | Some (nestedList, endIdx, n') \<Rightarrow>
           item_loop k src too_deep endIdx 0
             (case nestedList of Some l \<Rightarrow> content @ [l] | None \<Rightarrow> content) n')"
    by (simp add: item_loop_code item_round_def too_deep_line1 Let_def)
  from nested_bullets_no_progress[of k src n] show ?case
  proof
    assume "parseBulletList k src too_deep (Suc 0) (Suc 0) n = None"
    with step show ?thesis by simp
  next
    assume "parseBulletList k src too_deep (Suc 0) (Suc 0) n = Some (None, 1, n)"
    with step Suc.IH show ?thesis by simp
  qed
qed

lemma top_bullets_never_return:
  "parseBulletList fuel src too_deep 0 0 n = None"
proof -
  have item: "\<And>k m. parseListItem k src too_deep 0 0 m = None"
    by (simp add: parseListItem_code listItem_of_def item_loop_never_returns Let_def
          split: prod.splits)
  have "bullet_loop fuel src too_deep 0 0 [] n = None"
  proof (cases fuel)
    case 0 then show ?thesis by (simp add: bullet_loop_code)
  next
    case (Suc k)
    then show ?thesis
      by (simp add: bullet_loop_code bullet_round_def too_deep_line0 Let_def item)
  qed
  then show ?thesis by (simp add: parseBulletList_code bulletList_of_def)
qed

text \<open>
  Claim C2 at the text \<open>- a\<close>, newline, \<open>    - b\<close> (a bullet indented by two levels
  under a bullet): \<open>parseListItem\<close> calls \<open>parseBulletList\<close> one level deeper, which
  finds the line deeper still, returns no list and the index it was given, and the loop
  of \<open>parseListItem\<close> goes round at the same index. No budget lets \<open>FromMarkdown\<close>
  return.
\<close>

theorem FromMarkdown_never_returns:
  "FromMarkdown fuel src (''- a'' @ [NL] @ ''    - b'') n = None"
proof -
  have s: "Split (''- a'' @ [NL] @ ''    - b'') NL = too_deep" by code_simp
  have "parseBlocks_loop fuel src too_deep 0 [] [] n = None"
  proof (cases fuel)
    case 0 then show ?thesis by simp
  next
    case (Suc k)
    then show ?thesis
      by (simp add: blocks_round_def too_deep_line0 Let_def top_bullets_never_return)
  qed
  then show ?thesis
    by (simp add: FromMarkdown_def parseMarkdownDocument_def parseBlocks_def s too_deep_def)
qed

subsection \<open>Rendering a parsed rendering\<close>

definition heading :: "val \<Rightarrow> val list \<Rightarrow> val" where
  "heading level inline =
     VMap [(''type'', VStr ''heading''), (''attrs'', VMap [(''level'', level)]),
           (''content'', VList inline)]"

text \<open>
  Claim C1 at the document of one heading of level 2 (the level a \<open>float64\<close>, as a
  decoded document holds it): it renders as \<open>## x\<close>; the parser reads that back as a
  heading whose level is an \<open>int\<close>; the renderer asserts a \<open>float64\<close>, finds none,
  and renders level 1.
\<close>

theorem render_parse_render_heading:
  "ToMarkdown loc (document [heading (VFloat 2) [text_node ''x'']]) = ''## x'' \<and>
   FromMarkdown (Suc (Suc fuel)) src ''## x'' n =
     Some (document [heading (VInt 2) [text_node ''x'']], n) \<and>
   ToMarkdown loc (document [heading (VInt 2) [text_node ''x'']]) = ''# x''"
proof -
  let ?l = "''## x''"
  have r1: "ToMarkdown loc (document [heading (VFloat 2) [text_node ''x'']]) = ''## x''"
    by code_simp
  have r2: "ToMarkdown loc (document [heading (VInt 2) [text_node ''x'']]) = ''# x''"
    by code_simp
  have s: "Split ?l NL = [?l]" by code_simp
  have c: "TrimSpace ?l \<noteq> []" "FindStringSubmatch MetadataCommentRe ?l = None"
    "FindStringSubmatch FenceBlockRe ?l = None" "\<not> HasPrefix ?l [BQ, BQ, BQ]"
    "HasPrefix ?l ''#''"
    by code_simp+
  have h: "parseHeading src ?l [] n = (Some (heading (VInt 2) [text_node ''x'']), n)"
    by code_simp
  have "FromMarkdown (Suc (Suc fuel)) src ?l n =
          Some (document [heading (VInt 2) [text_node ''x'']], n)"
    by (simp add: FromMarkdown_def parseMarkdownDocument_def parseBlocks_def s blocks_round_def
          c h Let_def append_node_def document_def)
  with r1 r2 show ?thesis by simp
qed

end
